theory Spec2Isabelle
  imports Main
begin

section \<open>Organization memberships: data model\<close>

text \<open>
  A shallow embedding of \<^verbatim>\<open>handleCreateMembership\<close> and \<^verbatim>\<open>handleUpdateMembership\<close>
  (\<^verbatim>\<open>web/src/ee/features/admin-api/server/memberships.ts\<close>). The handlers are asynchronous
  but await every collaborator call in sequence, so a run is a function from the state
  of the collaborators before the call to the response and the state after it. The state
  holds the tables of the store and the sequence of collaborator calls made so far
  (store reads, store writes, audit records, notification mails), in the order in which
  the handler awaits them. Failures of a collaborator (an exception of the store client,
  of the audit recorder or of the mailer) are outside the model.
\<close>

text \<open>
  Modelled from the spec: the \<^verbatim>\<open>Role\<close> enumeration is imported from a package that is not
  part of the source; the spec gives NONE, MEMBER, ADMIN and OWNER as its least content.
  The handlers only compare a role with \<^verbatim>\<open>Role.NONE\<close>.
\<close>

datatype role = OWNER | ADMIN | MEMBER | VIEWER | NONE

record user =
  user_id :: string
  user_email :: string
  user_name :: "string option"

record organization =
  org_id :: string
  org_name :: string

record project =
  project_id :: string
  project_orgId :: string
  project_deletedAt :: "nat option"

record organizationMembership =
  om_id :: string
  om_userId :: string
  om_orgId :: string
  om_role :: role

record projectMembership =
  pm_userId :: string
  pm_projectId :: string
  pm_role :: role
  pm_orgMembershipId :: string

record membershipInvitation =
  inv_id :: string
  inv_orgId :: string
  inv_projectId :: "string option"
  inv_email :: string
  inv_orgRole :: role
  inv_projectRole :: "role option"
  inv_invitedByUserId :: "string option"

text \<open>The \<^verbatim>\<open>after\<close> field of an audit record is the row that was just written.\<close>

datatype snapshot =
    OrgMembershipRow organizationMembership
  | ProjectMembershipRow projectMembership
  | InvitationRow membershipInvitation

record auditEntry =
  resourceType :: string
  resourceId :: string
  action :: string
  audit_orgId :: string
  orgRole :: role
  audit_userId :: string
  after :: snapshot

record invitationEmail =
  inviterEmail :: string
  inviterName :: string
  to :: string
  orgName :: string
  mail_orgId :: string
  userExists :: bool

text \<open>One constructor for each collaborator call the two handlers make.\<close>

datatype call =
    UserFindUniqueByEmail string
  | UserFindUniqueById string
  | OrganizationFindUnique string
  | ProjectFindFirst string string
  | OrganizationMembershipFindFirst string string
  | OrganizationMembershipCreate organizationMembership
  | OrganizationMembershipUpsert string string role
  | ProjectMembershipCreate projectMembership
  | MembershipInvitationFindFirst string string
  | MembershipInvitationCreate membershipInvitation
  | AuditLog auditEntry
  | SendMembershipInvitationEmail invitationEmail

record state =
  users :: "user list"
  organizations :: "organization list"
  projects :: "project list"
  organizationMemberships :: "organizationMembership list"
  projectMemberships :: "projectMembership list"
  membershipInvitations :: "membershipInvitation list"
  nextId :: nat
  EMAIL_FROM_ADDRESS :: "string option"
  calls :: "call list"

text \<open>
  The request body after \<^verbatim>\<open>safeParse\<close>. The schema library is outside the source, so
  the result of the parse is the input of the model: either a failure, or the data with
  an email, a role, and the two optional fields.
\<close>

record createBody =
  cb_email :: string
  cb_role :: role
  cb_projectId :: "string option"
  cb_projectRole :: "role option"

record membershipBody =
  mb_userId :: string
  mb_role :: role

datatype 'a safeParse = ParseFailure | ParseSuccess 'a

text \<open>
  The JSON bodies of the responses: an error message, the membership
  (userId, role, email, name), the invitation (invitationId, email, role, status). The
  list of validation issues in the body of a 400 response is left out.
\<close>

datatype json =
    ErrorJson string
  | MembershipJson string role string "string option"
  | InvitationJson string string role string

datatype response = Response nat json

fun status :: "response \<Rightarrow> nat" where
  "status (Response n _) = n"

section \<open>Strings\<close>

text \<open>
  \<^verbatim>\<open>String.prototype.toLowerCase\<close> on the characters an address accepted by the schema
  can contain: the letters A to Z are mapped to a to z, every other character is kept.
\<close>

definition lowerChar :: "char \<Rightarrow> char" where
  "lowerChar c =
     (let n = (of_char c :: nat) in if 65 \<le> n \<and> n \<le> 90 then char_of (n + 32) else c)"

definition toLowerCase :: "string \<Rightarrow> string" where
  "toLowerCase s = map lowerChar s"

text \<open>
  JavaScript truthiness of an optional string: \<^verbatim>\<open>undefined\<close> and the empty string are
  both falsy.
\<close>

fun truthy :: "string option \<Rightarrow> bool" where
  "truthy None = False"
| "truthy (Some s) = (s \<noteq> [])"

text \<open>
  \<^verbatim>\<open>projectRole && projectRole !== Role.NONE\<close>: the role is given and is not NONE (every
  value of the enumeration is a non-empty string, hence truthy).
\<close>

fun roleRequested :: "role option \<Rightarrow> bool" where
  "roleRequested None = False"
| "roleRequested (Some r) = (r \<noteq> NONE)"

text \<open>
  The store gives a new membership or invitation its id; the schema that says how is not
  part of the source. In the model the id is drawn from the counter \<open>nextId\<close> of the
  state, written in unary after a prefix, so that ids drawn at different times differ.
\<close>

definition cuid :: "nat \<Rightarrow> string" where
  "cuid n = ''c'' @ replicate n (CHR ''x'')"

section \<open>Collaborators\<close>

definition record_call :: "call \<Rightarrow> state \<Rightarrow> state" where
  "record_call c s = s\<lparr>calls := calls s @ [c]\<rparr>"

text \<open>The reads of the store, as functions of the tables.\<close>

definition findUserByEmail :: "state \<Rightarrow> string \<Rightarrow> user option" where
  "findUserByEmail s e = find (\<lambda>u. user_email u = e) (users s)"

definition findUserById :: "state \<Rightarrow> string \<Rightarrow> user option" where
  "findUserById s i = find (\<lambda>u. user_id u = i) (users s)"

definition findOrganization :: "state \<Rightarrow> string \<Rightarrow> organization option" where
  "findOrganization s i = find (\<lambda>g. org_id g = i) (organizations s)"

definition findProject :: "state \<Rightarrow> string \<Rightarrow> string \<Rightarrow> project option" where
  "findProject s pid oid =
     find (\<lambda>p. project_id p = pid \<and> project_orgId p = oid \<and> project_deletedAt p = None)
       (projects s)"

definition hasKey :: "string \<Rightarrow> string \<Rightarrow> organizationMembership \<Rightarrow> bool" where
  "hasKey oid uid m = (om_orgId m = oid \<and> om_userId m = uid)"

definition findOrgMembership ::
  "state \<Rightarrow> string \<Rightarrow> string \<Rightarrow> organizationMembership option" where
  "findOrgMembership s oid uid = find (hasKey oid uid) (organizationMemberships s)"

definition findInvitation :: "state \<Rightarrow> string \<Rightarrow> string \<Rightarrow> membershipInvitation option" where
  "findInvitation s e oid =
     find (\<lambda>i. inv_email i = e \<and> inv_orgId i = oid) (membershipInvitations s)"

text \<open>The same reads as collaborator calls: the result, and the call recorded.\<close>

definition user_findUnique_email :: "string \<Rightarrow> state \<Rightarrow> user option \<times> state" where
  "user_findUnique_email e s = (findUserByEmail s e, record_call (UserFindUniqueByEmail e) s)"

definition user_findUnique_id :: "string \<Rightarrow> state \<Rightarrow> user option \<times> state" where
  "user_findUnique_id i s = (findUserById s i, record_call (UserFindUniqueById i) s)"

definition organization_findUnique :: "string \<Rightarrow> state \<Rightarrow> organization option \<times> state" where
  "organization_findUnique i s = (findOrganization s i, record_call (OrganizationFindUnique i) s)"

definition project_findFirst :: "string \<Rightarrow> string \<Rightarrow> state \<Rightarrow> project option \<times> state" where
  "project_findFirst pid oid s = (findProject s pid oid, record_call (ProjectFindFirst pid oid) s)"

definition organizationMembership_findFirst ::
  "string \<Rightarrow> string \<Rightarrow> state \<Rightarrow> organizationMembership option \<times> state" where
  "organizationMembership_findFirst oid uid s =
     (findOrgMembership s oid uid, record_call (OrganizationMembershipFindFirst oid uid) s)"

definition organizationMembership_create ::
  "string \<Rightarrow> string \<Rightarrow> role \<Rightarrow> state \<Rightarrow> organizationMembership \<times> state" where
  "organizationMembership_create uid oid r s =
     (let m = \<lparr>om_id = cuid (nextId s), om_userId = uid, om_orgId = oid, om_role = r\<rparr>
      in (m, record_call (OrganizationMembershipCreate m)
               (s\<lparr>organizationMemberships := organizationMemberships s @ [m],
                  nextId := Suc (nextId s)\<rparr>)))"

definition projectMembership_create ::
  "string \<Rightarrow> string \<Rightarrow> role \<Rightarrow> string \<Rightarrow> state \<Rightarrow> projectMembership \<times> state" where
  "projectMembership_create uid pid r omid s =
     (let m = \<lparr>pm_userId = uid, pm_projectId = pid, pm_role = r, pm_orgMembershipId = omid\<rparr>
      in (m, record_call (ProjectMembershipCreate m)
               (s\<lparr>projectMemberships := projectMemberships s @ [m]\<rparr>)))"

definition membershipInvitation_findFirst ::
  "string \<Rightarrow> string \<Rightarrow> state \<Rightarrow> membershipInvitation option \<times> state" where
  "membershipInvitation_findFirst e oid s =
     (findInvitation s e oid, record_call (MembershipInvitationFindFirst e oid) s)"

definition membershipInvitation_create ::
  "string \<Rightarrow> string option \<Rightarrow> string \<Rightarrow> role \<Rightarrow> role option \<Rightarrow> string option \<Rightarrow> state
     \<Rightarrow> membershipInvitation \<times> state" where
  "membershipInvitation_create oid pid e r pr by s =
     (let i = \<lparr>inv_id = cuid (nextId s), inv_orgId = oid, inv_projectId = pid, inv_email = e,
                inv_orgRole = r, inv_projectRole = pr, inv_invitedByUserId = by\<rparr>
      in (i, record_call (MembershipInvitationCreate i)
               (s\<lparr>membershipInvitations := membershipInvitations s @ [i],
                  nextId := Suc (nextId s)\<rparr>)))"

definition auditLog :: "auditEntry \<Rightarrow> state \<Rightarrow> state" where
  "auditLog a s = record_call (AuditLog a) s"

definition sendMembershipInvitationEmail :: "invitationEmail \<Rightarrow> state \<Rightarrow> state" where
  "sendMembershipInvitationEmail m s = record_call (SendMembershipInvitationEmail m) s"

text \<open>\<^verbatim>\<open>env.EMAIL_FROM_ADDRESS || "noreply@langfuse.com"\<close>\<close>

definition fromAddress :: "state \<Rightarrow> string" where
  "fromAddress s =
     (case EMAIL_FROM_ADDRESS s of
        None \<Rightarrow> ''noreply@langfuse.com''
      | Some a \<Rightarrow> if a = [] then ''noreply@langfuse.com'' else a)"

text \<open>
  The upsert on the unique key \<^verbatim>\<open>orgId_userId\<close>: a row with the key has its role
  overwritten, otherwise a row is created. The row returned is the one written. The key is
  unique in the store, so at most one row has it; on a list with several such rows the
  model would overwrite them all and return the first.
\<close>

definition organizationMembership_upsert ::
  "string \<Rightarrow> string \<Rightarrow> role \<Rightarrow> state \<Rightarrow> organizationMembership \<times> state" where
  "organizationMembership_upsert oid uid r s =
     (case findOrgMembership s oid uid of
        Some m \<Rightarrow>
          (m\<lparr>om_role := r\<rparr>,
           record_call (OrganizationMembershipUpsert oid uid r)
             (s\<lparr>organizationMemberships :=
                  map (\<lambda>m. if hasKey oid uid m then m\<lparr>om_role := r\<rparr> else m)
                    (organizationMemberships s)\<rparr>))
      | None \<Rightarrow>
          (let m = \<lparr>om_id = cuid (nextId s), om_userId = uid, om_orgId = oid, om_role = r\<rparr>
           in (m, record_call (OrganizationMembershipUpsert oid uid r)
                    (s\<lparr>organizationMemberships := organizationMemberships s @ [m],
                       nextId := Suc (nextId s)\<rparr>))))"

section \<open>The handlers\<close>

text \<open>
  The arm of \<^verbatim>\<open>if (user)\<close> for a user that exists (lines 110 to 191): conflict check,
  membership, audit record, project membership and its audit record when requested, mail,
  response.
\<close>

definition existingUserArm ::
  "createBody \<Rightarrow> string \<Rightarrow> organization \<Rightarrow> project option \<Rightarrow> user \<Rightarrow> state \<Rightarrow> response \<times> state"
  where
  "existingUserArm d orgId org proj usr s3 =
     (case organizationMembership_findFirst orgId (user_id usr) s3 of
        (Some existing, s4) \<Rightarrow>
          (Response 409 (ErrorJson ''User is already a member of this organization''), s4)
      | (None, s4) \<Rightarrow>
          (case organizationMembership_create (user_id usr) orgId (cb_role d) s4 of
             (orgMembership, s5) \<Rightarrow>
               let s6 = auditLog
                          \<lparr>resourceType = ''orgMembership'', resourceId = om_id orgMembership,
                           action = ''create'', audit_orgId = orgId, orgRole = cb_role d,
                           audit_userId = ''API'', after = OrgMembershipRow orgMembership\<rparr> s5;
                   s8 = (case (proj, cb_projectRole d) of
                           (Some p, Some projectRole) \<Rightarrow>
                             if projectRole \<noteq> NONE then
                               (case projectMembership_create (user_id usr) (project_id p)
                                       projectRole (om_id orgMembership) s6 of
                                  (projectMembership, s7) \<Rightarrow>
                                    auditLog
                                      \<lparr>resourceType = ''projectMembership'',
                                       resourceId = project_id p @ ''--'' @ user_id usr,
                                       action = ''create'', audit_orgId = orgId,
                                       orgRole = cb_role d, audit_userId = ''API'',
                                       after = ProjectMembershipRow projectMembership\<rparr> s7)
                             else s6
                         | _ \<Rightarrow> s6);
                   s9 = sendMembershipInvitationEmail
                          \<lparr>inviterEmail = fromAddress s8, inviterName = ''Organization Admin'',
                           to = cb_email d, orgName = org_name org, mail_orgId = orgId,
                           userExists = True\<rparr> s8
               in (Response 200
                     (MembershipJson (user_id usr) (cb_role d) (user_email usr) (user_name usr)),
                   s9)))"

text \<open>
  The arm for an email without a user (lines 192 to 245): conflict check, invitation,
  audit record, mail, response.
\<close>

definition newUserArm ::
  "createBody \<Rightarrow> string \<Rightarrow> organization \<Rightarrow> project option \<Rightarrow> state \<Rightarrow> response \<times> state" where
  "newUserArm d orgId org proj s3 =
     (case membershipInvitation_findFirst (toLowerCase (cb_email d)) orgId s3 of
        (Some existing, s4) \<Rightarrow>
          (Response 409 (ErrorJson ''Invitation already exists for this email''), s4)
      | (None, s4) \<Rightarrow>
          (case membershipInvitation_create orgId
                  (case proj of
                     Some p \<Rightarrow> if roleRequested (cb_projectRole d) then Some (project_id p) else None
                   | None \<Rightarrow> None)
                  (toLowerCase (cb_email d)) (cb_role d)
                  (if roleRequested (cb_projectRole d) \<and> proj \<noteq> None then cb_projectRole d
                   else None)
                  None s4 of
             (invitation, s5) \<Rightarrow>
               let s6 = auditLog
                          \<lparr>resourceType = ''membershipInvitation'', resourceId = inv_id invitation,
                           action = ''create'', audit_orgId = orgId, orgRole = cb_role d,
                           audit_userId = ''API'', after = InvitationRow invitation\<rparr> s5;
                   s7 = sendMembershipInvitationEmail
                          \<lparr>inviterEmail = fromAddress s6, inviterName = ''Organization Admin'',
                           to = cb_email d, orgName = org_name org, mail_orgId = orgId,
                           userExists = False\<rparr> s6
               in (Response 200
                     (InvitationJson (inv_id invitation) (cb_email d) (cb_role d) ''PENDING''),
                   s7)))"

text \<open>
  \<^verbatim>\<open>handleCreateMembership\<close> (lines 59 to 246): parse, user lookup by the lower-cased
  email, organization lookup, project lookup when the project id is truthy, then one of
  the two arms.
\<close>

definition handleCreateMembership ::
  "createBody safeParse \<Rightarrow> string \<Rightarrow> state \<Rightarrow> response \<times> state" where
  "handleCreateMembership validatedBody orgId s0 =
     (case validatedBody of
        ParseFailure \<Rightarrow> (Response 400 (ErrorJson ''Invalid request body''), s0)
      | ParseSuccess d \<Rightarrow>
          (case user_findUnique_email (toLowerCase (cb_email d)) s0 of
             (usr, s1) \<Rightarrow>
               (case organization_findUnique orgId s1 of
                  (None, s2) \<Rightarrow> (Response 404 (ErrorJson ''Organization not found''), s2)
                | (Some org, s2) \<Rightarrow>
                    (case (case cb_projectId d of
                             Some pid \<Rightarrow>
                               if pid \<noteq> [] then project_findFirst pid orgId s2 else (None, s2)
                           | None \<Rightarrow> (None, s2)) of
                       (proj, s3) \<Rightarrow>
                         if truthy (cb_projectId d) \<and> proj = None then
                           (Response 404 (ErrorJson ''Project not found in this organization''), s3)
                         else
                           (case usr of
                              Some u \<Rightarrow> existingUserArm d orgId org proj u s3
                            | None \<Rightarrow> newUserArm d orgId org proj s3)))))"

text \<open>\<^verbatim>\<open>handleUpdateMembership\<close> (lines 249 to 299).\<close>

definition handleUpdateMembership ::
  "membershipBody safeParse \<Rightarrow> string \<Rightarrow> state \<Rightarrow> response \<times> state" where
  "handleUpdateMembership validatedBody orgId s0 =
     (case validatedBody of
        ParseFailure \<Rightarrow> (Response 400 (ErrorJson ''Invalid request body''), s0)
      | ParseSuccess d \<Rightarrow>
          (case user_findUnique_id (mb_userId d) s0 of
             (None, s1) \<Rightarrow> (Response 404 (ErrorJson ''User not found''), s1)
           | (Some usr, s1) \<Rightarrow>
               (case organizationMembership_upsert orgId (mb_userId d) (mb_role d) s1 of
                  (membership, s2) \<Rightarrow>
                    (Response 200
                       (MembershipJson (om_userId membership) (om_role membership)
                          (user_email usr) (user_name usr)),
                     s2))))"

section \<open>Observing a run\<close>

text \<open>The calls a run adds to the sequence of calls: those made between \<open>s\<close> and \<open>s'\<close>.\<close>

definition run_calls :: "state \<Rightarrow> state \<Rightarrow> call list" where
  "run_calls s s' = drop (length (calls s)) (calls s')"

fun isWrite :: "call \<Rightarrow> bool" where
  "isWrite (OrganizationMembershipCreate _) = True"
| "isWrite (OrganizationMembershipUpsert _ _ _) = True"
| "isWrite (ProjectMembershipCreate _) = True"
| "isWrite (MembershipInvitationCreate _) = True"
| "isWrite _ = False"

fun isAudit :: "call \<Rightarrow> bool" where
  "isAudit (AuditLog _) = True"
| "isAudit _ = False"

fun isMail :: "call \<Rightarrow> bool" where
  "isMail (SendMembershipInvitationEmail _) = True"
| "isMail _ = False"

fun auditsOf :: "call list \<Rightarrow> auditEntry list" where
  "auditsOf [] = []"
| "auditsOf (AuditLog a # cs) = a # auditsOf cs"
| "auditsOf (_ # cs) = auditsOf cs"

fun mailsOf :: "call list \<Rightarrow> invitationEmail list" where
  "mailsOf [] = []"
| "mailsOf (SendMembershipInvitationEmail m # cs) = m # mailsOf cs"
| "mailsOf (_ # cs) = mailsOf cs"

text \<open>
  The value of the handler's variable \<^verbatim>\<open>project\<close>: the project found for a truthy project
  id, and \<^verbatim>\<open>null\<close> when the id is missing or empty.
\<close>

definition projectOf :: "state \<Rightarrow> string \<Rightarrow> string option \<Rightarrow> project option" where
  "projectOf s oid pidopt =
     (case pidopt of
        Some pid \<Rightarrow> if pid \<noteq> [] then findProject s pid oid else None
      | None \<Rightarrow> None)"

text \<open>
  The project and the project role a request asks for: the value of
  \<^verbatim>\<open>project && projectRole && projectRole !== Role.NONE\<close>, used by both arms.
\<close>

definition requestedProject :: "state \<Rightarrow> createBody \<Rightarrow> string \<Rightarrow> (project \<times> role) option" where
  "requestedProject s d oid =
     (case projectOf s oid (cb_projectId d) of
        None \<Rightarrow> None
      | Some p \<Rightarrow>
          (case cb_projectRole d of
             None \<Rightarrow> None
           | Some r \<Rightarrow> if r \<noteq> NONE then Some (p, r) else None))"

text \<open>The reads every run starts with, in the order of the handler.\<close>

definition lookups :: "createBody \<Rightarrow> string \<Rightarrow> call list" where
  "lookups d oid =
     [UserFindUniqueByEmail (toLowerCase (cb_email d)), OrganizationFindUnique oid] @
     (case cb_projectId d of
        Some pid \<Rightarrow> if pid \<noteq> [] then [ProjectFindFirst pid oid] else []
      | None \<Rightarrow> [])"

text \<open>The rows, audit records and mail a run is expected to produce.\<close>

definition newOrgMembership ::
  "state \<Rightarrow> createBody \<Rightarrow> string \<Rightarrow> user \<Rightarrow> organizationMembership" where
  "newOrgMembership s d oid u =
     \<lparr>om_id = cuid (nextId s), om_userId = user_id u, om_orgId = oid, om_role = cb_role d\<rparr>"

definition orgMembershipAudit ::
  "createBody \<Rightarrow> string \<Rightarrow> organizationMembership \<Rightarrow> auditEntry" where
  "orgMembershipAudit d oid m =
     \<lparr>resourceType = ''orgMembership'', resourceId = om_id m, action = ''create'',
      audit_orgId = oid, orgRole = cb_role d, audit_userId = ''API'',
      after = OrgMembershipRow m\<rparr>"

definition newProjectMembership :: "state \<Rightarrow> user \<Rightarrow> project \<Rightarrow> role \<Rightarrow> projectMembership" where
  "newProjectMembership s u p r =
     \<lparr>pm_userId = user_id u, pm_projectId = project_id p, pm_role = r,
      pm_orgMembershipId = cuid (nextId s)\<rparr>"

definition projectMembershipAudit ::
  "createBody \<Rightarrow> string \<Rightarrow> user \<Rightarrow> project \<Rightarrow> projectMembership \<Rightarrow> auditEntry" where
  "projectMembershipAudit d oid u p m =
     \<lparr>resourceType = ''projectMembership'', resourceId = project_id p @ ''--'' @ user_id u,
      action = ''create'', audit_orgId = oid, orgRole = cb_role d, audit_userId = ''API'',
      after = ProjectMembershipRow m\<rparr>"

definition newInvitation :: "state \<Rightarrow> createBody \<Rightarrow> string \<Rightarrow> membershipInvitation" where
  "newInvitation s d oid =
     \<lparr>inv_id = cuid (nextId s), inv_orgId = oid,
      inv_projectId = map_option (\<lambda>(p, r). project_id p) (requestedProject s d oid),
      inv_email = toLowerCase (cb_email d), inv_orgRole = cb_role d,
      inv_projectRole = map_option (\<lambda>(p, r). r) (requestedProject s d oid),
      inv_invitedByUserId = None\<rparr>"

definition invitationAudit :: "createBody \<Rightarrow> string \<Rightarrow> membershipInvitation \<Rightarrow> auditEntry" where
  "invitationAudit d oid i =
     \<lparr>resourceType = ''membershipInvitation'', resourceId = inv_id i, action = ''create'',
      audit_orgId = oid, orgRole = cb_role d, audit_userId = ''API'',
      after = InvitationRow i\<rparr>"

definition invitationMail ::
  "state \<Rightarrow> createBody \<Rightarrow> string \<Rightarrow> organization \<Rightarrow> bool \<Rightarrow> invitationEmail" where
  "invitationMail s d oid g ex =
     \<lparr>inviterEmail = fromAddress s, inviterName = ''Organization Admin'', to = cb_email d,
      orgName = org_name g, mail_orgId = oid, userExists = ex\<rparr>"

section \<open>Order of the calls of a run\<close>

text \<open>
  An audit record describes a write when its \<^verbatim>\<open>after\<close> field is the row written and its
  resource type is that of the table.
\<close>

fun describes :: "auditEntry \<Rightarrow> call \<Rightarrow> bool" where
  "describes a (OrganizationMembershipCreate m) =
     (after a = OrgMembershipRow m \<and> resourceType a = ''orgMembership'')"
| "describes a (ProjectMembershipCreate m) =
     (after a = ProjectMembershipRow m \<and> resourceType a = ''projectMembership'')"
| "describes a (MembershipInvitationCreate i) =
     (after a = InvitationRow i \<and> resourceType a = ''membershipInvitation'')"
| "describes a _ = False"

text \<open>
  Every write is followed at once by an audit record that describes it, and there is no
  other audit record.
\<close>

fun auditedWrites :: "call list \<Rightarrow> bool" where
  "auditedWrites [] = True"
| "auditedWrites (c # cs) =
     (if isWrite c then
        (case cs of
           [] \<Rightarrow> False
         | c' # cs' \<Rightarrow> (case c' of AuditLog a \<Rightarrow> describes a c \<and> auditedWrites cs' | _ \<Rightarrow> False))
      else \<not> isAudit c \<and> auditedWrites cs)"

text \<open>
  No write and no audit record comes after a mail.
\<close>

fun mailAfterWritesAndAudits :: "call list \<Rightarrow> bool" where
  "mailAfterWritesAndAudits [] = True"
| "mailAfterWritesAndAudits (c # cs) =
     ((isMail c \<longrightarrow> list_all (\<lambda>x. \<not> isWrite x \<and> \<not> isAudit x) cs) \<and>
      mailAfterWritesAndAudits cs)"

text \<open>
  The write a mail announces: the creation of a membership in the organization of the mail
  for \<^verbatim>\<open>userExists = true\<close>, the creation of an invitation for the organization and the
  lower-cased address of the mail for \<^verbatim>\<open>userExists = false\<close>.
\<close>

fun correspondingWrite :: "invitationEmail \<Rightarrow> call \<Rightarrow> bool" where
  "correspondingWrite e (OrganizationMembershipCreate m) =
     (userExists e \<and> om_orgId m = mail_orgId e)"
| "correspondingWrite e (MembershipInvitationCreate i) =
     (\<not> userExists e \<and> inv_orgId i = mail_orgId e \<and> inv_email i = toLowerCase (to e))"
| "correspondingWrite e _ = False"

text \<open>
  Every mail comes after the write it announces; \<open>seen\<close> holds the calls before the ones
  still to be read.
\<close>

fun mailsAfterTheirWrite :: "call list \<Rightarrow> call list \<Rightarrow> bool" where
  "mailsAfterTheirWrite seen [] = True"
| "mailsAfterTheirWrite seen (c # cs) =
     ((case c of
         SendMembershipInvitationEmail e \<Rightarrow> list_ex (correspondingWrite e) seen
       | _ \<Rightarrow> True) \<and>
      mailsAfterTheirWrite (seen @ [c]) cs)"

text \<open>
  The lookups of the user, of the organization and of the project.
\<close>

fun isUserLookup :: "call \<Rightarrow> bool" where
  "isUserLookup (UserFindUniqueByEmail _) = True"
| "isUserLookup _ = False"

fun isOrgLookup :: "call \<Rightarrow> bool" where
  "isOrgLookup (OrganizationFindUnique _) = True"
| "isOrgLookup _ = False"

fun isProjectLookup :: "call \<Rightarrow> bool" where
  "isProjectLookup (ProjectFindFirst _ _) = True"
| "isProjectLookup _ = False"

text \<open>
  \<open>precedes P Q cs\<close>: a call satisfying \<open>P\<close> is made, and no call satisfying \<open>Q\<close> is made
  before the first of them.
\<close>

fun precedes :: "(call \<Rightarrow> bool) \<Rightarrow> (call \<Rightarrow> bool) \<Rightarrow> call list \<Rightarrow> bool" where
  "precedes P Q [] = False"
| "precedes P Q (c # cs) = (if Q c then False else if P c then True else precedes P Q cs)"

section \<open>Project roles and the arm a response comes from\<close>

text \<open>
  The project id is given, is not empty, and is the id of a project of the organization
  that is not soft-deleted: a statement about the table of projects.
\<close>

definition liveProjectInOrg :: "state \<Rightarrow> string \<Rightarrow> string option \<Rightarrow> bool" where
  "liveProjectInOrg s oid pidopt =
     (case pidopt of
        None \<Rightarrow> False
      | Some pid \<Rightarrow>
          pid \<noteq> [] \<and>
          (\<exists>p \<in> set (projects s).
             project_id p = pid \<and> project_orgId p = oid \<and> project_deletedAt p = None))"

text \<open>
  A live project of the organization and a project role other than NONE are both
  supplied.
\<close>

definition projectRoleWanted :: "state \<Rightarrow> createBody \<Rightarrow> string \<Rightarrow> bool" where
  "projectRoleWanted s d oid =
     (liveProjectInOrg s oid (cb_projectId d) \<and> roleRequested (cb_projectRole d))"



section \<open>A store to run the handlers on\<close>

text \<open>
  The organization, the users and the project of the examples of the specification, with
  a soft-deleted project, a project of another organization, a user who is a member
  already, a user whose stored email has capital letters, and a pending invitation.
\<close>

definition demo :: state where
  "demo =
     \<lparr>users =
        [\<lparr>user_id = ''u1'', user_email = ''existing@x.com'', user_name = Some ''Existing User''\<rparr>,
         \<lparr>user_id = ''u2'', user_email = ''member@x.com'', user_name = None\<rparr>,
         \<lparr>user_id = ''u3'', user_email = ''Casey@X.com'', user_name = Some ''Casey''\<rparr>],
      organizations = [\<lparr>org_id = ''org_1'', org_name = ''Org One''\<rparr>,
                       \<lparr>org_id = ''org_2'', org_name = ''Org Two''\<rparr>],
      projects =
        [\<lparr>project_id = ''proj_1'', project_orgId = ''org_1'', project_deletedAt = None\<rparr>,
         \<lparr>project_id = ''proj_2'', project_orgId = ''org_1'', project_deletedAt = Some 7\<rparr>,
         \<lparr>project_id = ''proj_3'', project_orgId = ''org_2'', project_deletedAt = None\<rparr>],
      organizationMemberships =
        [\<lparr>om_id = ''m0'', om_userId = ''u2'', om_orgId = ''org_1'', om_role = MEMBER\<rparr>],
      projectMemberships = [],
      membershipInvitations =
        [\<lparr>inv_id = ''i0'', inv_orgId = ''org_1'', inv_projectId = None,
          inv_email = ''pending@x.com'', inv_orgRole = VIEWER, inv_projectRole = None,
          inv_invitedByUserId = None\<rparr>],
      nextId = 0,
      EMAIL_FROM_ADDRESS = None,
      calls = []\<rparr>"

text \<open>
  Requests to \<^verbatim>\<open>handleCreateMembership\<close>, after the parse.
\<close>

definition addExisting :: createBody where
  "addExisting =
     \<lparr>cb_email = ''existing@x.com'', cb_role = ADMIN, cb_projectId = Some ''proj_1'',
      cb_projectRole = Some MEMBER\<rparr>"

definition addExistingAgain :: createBody where
  "addExistingAgain =
     \<lparr>cb_email = ''EXISTING@x.com'', cb_role = OWNER, cb_projectId = None,
      cb_projectRole = None\<rparr>"

definition addMemberToProject :: createBody where
  "addMemberToProject =
     \<lparr>cb_email = ''member@x.com'', cb_role = ADMIN, cb_projectId = Some ''proj_1'',
      cb_projectRole = Some MEMBER\<rparr>"


definition inviteNew :: createBody where
  "inviteNew =
     \<lparr>cb_email = ''New@x.com'', cb_role = MEMBER, cb_projectId = None, cb_projectRole = None\<rparr>"

definition inviteNewAgain :: createBody where
  "inviteNewAgain =
     \<lparr>cb_email = ''new@X.COM'', cb_role = ADMIN, cb_projectId = Some ''proj_1'',
      cb_projectRole = Some VIEWER\<rparr>"

definition inviteNewToProject :: createBody where
  "inviteNewToProject =
     \<lparr>cb_email = ''new@x.com'', cb_role = MEMBER, cb_projectId = Some ''proj_1'',
      cb_projectRole = Some VIEWER\<rparr>"


text \<open>
  Requests to \<^verbatim>\<open>handleUpdateMembership\<close>, after the parse.
\<close>

definition promoteMember :: membershipBody where
  "promoteMember = \<lparr>mb_userId = ''u2'', mb_role = ADMIN\<rparr>"

definition enrolExisting :: membershipBody where
  "enrolExisting = \<lparr>mb_userId = ''u1'', mb_role = VIEWER\<rparr>"

section \<open>The runs of \<^verbatim>\<open>handleCreateMembership\<close>, outcome by outcome\<close>

lemmas store_defs =
  record_call_def user_findUnique_email_def user_findUnique_id_def organization_findUnique_def
  project_findFirst_def organizationMembership_findFirst_def organizationMembership_create_def
  projectMembership_create_def membershipInvitation_findFirst_def membershipInvitation_create_def
  auditLog_def sendMembershipInvitationEmail_def

lemmas find_defs =
  findUserByEmail_def findOrganization_def findProject_def findOrgMembership_def
  findInvitation_def fromAddress_def

lemmas expected_defs =
  lookups_def newOrgMembership_def orgMembershipAudit_def newProjectMembership_def
  projectMembershipAudit_def newInvitation_def invitationAudit_def invitationMail_def

lemma run_invalid:
  "handleCreateMembership ParseFailure orgId s =
     (Response 400 (ErrorJson ''Invalid request body''), s)"
  by (simp add: handleCreateMembership_def)

lemma run_org_missing:
  assumes "findOrganization s orgId = None"
  shows "handleCreateMembership (ParseSuccess d) orgId s =
    (Response 404 (ErrorJson ''Organization not found''),
     s\<lparr>calls := calls s @
          [UserFindUniqueByEmail (toLowerCase (cb_email d)), OrganizationFindUnique orgId]\<rparr>)"
  using assms by (simp add: handleCreateMembership_def store_defs find_defs)

lemma run_project_missing:
  assumes "findOrganization s orgId = Some g"
      and "truthy (cb_projectId d)"
      and "projectOf s orgId (cb_projectId d) = None"
  shows "handleCreateMembership (ParseSuccess d) orgId s =
    (Response 404 (ErrorJson ''Project not found in this organization''),
     s\<lparr>calls := calls s @ lookups d orgId\<rparr>)"
  using assms
  by (cases "cb_projectId d")
     (simp_all add: handleCreateMembership_def store_defs find_defs projectOf_def lookups_def)

lemma run_already_member:
  assumes "findUserByEmail s (toLowerCase (cb_email d)) = Some u"
      and "findOrganization s orgId = Some g"
      and "truthy (cb_projectId d) \<longrightarrow> projectOf s orgId (cb_projectId d) \<noteq> None"
      and "findOrgMembership s orgId (user_id u) = Some m"
  shows "handleCreateMembership (ParseSuccess d) orgId s =
    (Response 409 (ErrorJson ''User is already a member of this organization''),
     s\<lparr>calls := calls s @ lookups d orgId @
          [OrganizationMembershipFindFirst orgId (user_id u)]\<rparr>)"
  using assms
  by (cases "cb_projectId d")
     (auto simp add: handleCreateMembership_def existingUserArm_def store_defs find_defs
        projectOf_def lookups_def)

lemma run_added_plain:
  assumes "findUserByEmail s (toLowerCase (cb_email d)) = Some u"
      and "findOrganization s orgId = Some g"
      and "truthy (cb_projectId d) \<longrightarrow> projectOf s orgId (cb_projectId d) \<noteq> None"
      and "findOrgMembership s orgId (user_id u) = None"
      and "requestedProject s d orgId = None"
  shows "handleCreateMembership (ParseSuccess d) orgId s =
    (Response 200 (MembershipJson (user_id u) (cb_role d) (user_email u) (user_name u)),
     s\<lparr>organizationMemberships := organizationMemberships s @ [newOrgMembership s d orgId u],
       nextId := Suc (nextId s),
       calls := calls s @ lookups d orgId @
         [OrganizationMembershipFindFirst orgId (user_id u),
          OrganizationMembershipCreate (newOrgMembership s d orgId u),
          AuditLog (orgMembershipAudit d orgId (newOrgMembership s d orgId u)),
          SendMembershipInvitationEmail (invitationMail s d orgId g True)]\<rparr>)"
  using assms
  by (cases "cb_projectId d"; cases "cb_projectRole d")
     (auto simp add: handleCreateMembership_def existingUserArm_def store_defs find_defs
        projectOf_def requestedProject_def expected_defs Let_def split: option.splits if_splits)

lemma run_added_project:
  assumes "findUserByEmail s (toLowerCase (cb_email d)) = Some u"
      and "findOrganization s orgId = Some g"
      and "findOrgMembership s orgId (user_id u) = None"
      and "requestedProject s d orgId = Some (p, r)"
  shows "handleCreateMembership (ParseSuccess d) orgId s =
    (Response 200 (MembershipJson (user_id u) (cb_role d) (user_email u) (user_name u)),
     s\<lparr>organizationMemberships := organizationMemberships s @ [newOrgMembership s d orgId u],
       projectMemberships := projectMemberships s @ [newProjectMembership s u p r],
       nextId := Suc (nextId s),
       calls := calls s @ lookups d orgId @
         [OrganizationMembershipFindFirst orgId (user_id u),
          OrganizationMembershipCreate (newOrgMembership s d orgId u),
          AuditLog (orgMembershipAudit d orgId (newOrgMembership s d orgId u)),
          ProjectMembershipCreate (newProjectMembership s u p r),
          AuditLog (projectMembershipAudit d orgId u p (newProjectMembership s u p r)),
          SendMembershipInvitationEmail (invitationMail s d orgId g True)]\<rparr>)"
  using assms
  by (cases "cb_projectId d"; cases "cb_projectRole d")
     (auto simp add: handleCreateMembership_def existingUserArm_def store_defs find_defs
        projectOf_def requestedProject_def expected_defs Let_def split: option.splits if_splits)

lemma run_invitation_exists:
  assumes "findUserByEmail s (toLowerCase (cb_email d)) = None"
      and "findOrganization s orgId = Some g"
      and "truthy (cb_projectId d) \<longrightarrow> projectOf s orgId (cb_projectId d) \<noteq> None"
      and "findInvitation s (toLowerCase (cb_email d)) orgId = Some i"
  shows "handleCreateMembership (ParseSuccess d) orgId s =
    (Response 409 (ErrorJson ''Invitation already exists for this email''),
     s\<lparr>calls := calls s @ lookups d orgId @
          [MembershipInvitationFindFirst (toLowerCase (cb_email d)) orgId]\<rparr>)"
  using assms
  by (cases "cb_projectId d")
     (auto simp add: handleCreateMembership_def newUserArm_def store_defs find_defs
        projectOf_def lookups_def)

lemma run_invited:
  assumes "findUserByEmail s (toLowerCase (cb_email d)) = None"
      and "findOrganization s orgId = Some g"
      and "truthy (cb_projectId d) \<longrightarrow> projectOf s orgId (cb_projectId d) \<noteq> None"
      and "findInvitation s (toLowerCase (cb_email d)) orgId = None"
  shows "handleCreateMembership (ParseSuccess d) orgId s =
    (Response 200
       (InvitationJson (inv_id (newInvitation s d orgId)) (cb_email d) (cb_role d) ''PENDING''),
     s\<lparr>membershipInvitations := membershipInvitations s @ [newInvitation s d orgId],
       nextId := Suc (nextId s),
       calls := calls s @ lookups d orgId @
         [MembershipInvitationFindFirst (toLowerCase (cb_email d)) orgId,
          MembershipInvitationCreate (newInvitation s d orgId),
          AuditLog (invitationAudit d orgId (newInvitation s d orgId)),
          SendMembershipInvitationEmail (invitationMail s d orgId g False)]\<rparr>)"
  using assms
  by (cases "cb_projectId d"; cases "cb_projectRole d")
     (auto simp add: handleCreateMembership_def newUserArm_def store_defs find_defs
        projectOf_def requestedProject_def expected_defs Let_def split: option.splits if_splits)

section \<open>Every run is one of eight\<close>

text \<open>
  The calls of a run are the calls its final state adds, and every run of
  \<^verbatim>\<open>handleCreateMembership\<close> falls under exactly the conditions of one of the lemmas above.
\<close>

lemma run_calls_update [simp]:
  "calls s' = calls s @ cs \<Longrightarrow> run_calls s s' = cs"
  by (simp add: run_calls_def)

lemma create_outcomes
  [case_names invalid org_missing project_missing already_member added_plain added_project
     invitation_exists invited]:
  obtains "vb = ParseFailure"
  | d where "vb = ParseSuccess d" "findOrganization s orgId = None"
  | d g where "vb = ParseSuccess d" "findOrganization s orgId = Some g"
      "truthy (cb_projectId d)" "projectOf s orgId (cb_projectId d) = None"
  | d g u m where "vb = ParseSuccess d" "findOrganization s orgId = Some g"
      "truthy (cb_projectId d) \<longrightarrow> projectOf s orgId (cb_projectId d) \<noteq> None"
      "findUserByEmail s (toLowerCase (cb_email d)) = Some u"
      "findOrgMembership s orgId (user_id u) = Some m"
  | d g u where "vb = ParseSuccess d" "findOrganization s orgId = Some g"
      "truthy (cb_projectId d) \<longrightarrow> projectOf s orgId (cb_projectId d) \<noteq> None"
      "findUserByEmail s (toLowerCase (cb_email d)) = Some u"
      "findOrgMembership s orgId (user_id u) = None"
      "requestedProject s d orgId = None"
  | d g u p r where "vb = ParseSuccess d" "findOrganization s orgId = Some g"
      "findUserByEmail s (toLowerCase (cb_email d)) = Some u"
      "findOrgMembership s orgId (user_id u) = None"
      "requestedProject s d orgId = Some (p, r)"
  | d g i where "vb = ParseSuccess d" "findOrganization s orgId = Some g"
      "truthy (cb_projectId d) \<longrightarrow> projectOf s orgId (cb_projectId d) \<noteq> None"
      "findUserByEmail s (toLowerCase (cb_email d)) = None"
      "findInvitation s (toLowerCase (cb_email d)) orgId = Some i"
  | d g where "vb = ParseSuccess d" "findOrganization s orgId = Some g"
      "truthy (cb_projectId d) \<longrightarrow> projectOf s orgId (cb_projectId d) \<noteq> None"
      "findUserByEmail s (toLowerCase (cb_email d)) = None"
      "findInvitation s (toLowerCase (cb_email d)) orgId = None"
proof (cases vb)
  case ParseFailure
  then show ?thesis using that(1) by blast
next
  case (ParseSuccess d)
  show ?thesis
  proof (cases "findOrganization s orgId")
    case None
    with ParseSuccess show ?thesis using that(2) by blast
  next
    case (Some g)
    show ?thesis
    proof (cases "truthy (cb_projectId d) \<and> projectOf s orgId (cb_projectId d) = None")
      case True
      with ParseSuccess Some show ?thesis using that(3) by blast
    next
      case guard: False
      show ?thesis
      proof (cases "findUserByEmail s (toLowerCase (cb_email d))")
        case None
        with ParseSuccess Some guard show ?thesis
          using that(7,8) by (cases "findInvitation s (toLowerCase (cb_email d)) orgId") blast+
      next
        case u: (Some u)
        show ?thesis
        proof (cases "findOrgMembership s orgId (user_id u)")
          case (Some m)
          with ParseSuccess \<open>findOrganization s orgId = Some g\<close> guard u show ?thesis
            using that(4) by blast
        next
          case None
          with ParseSuccess Some guard u show ?thesis
            using that(5,6) by (cases "requestedProject s d orgId") (blast, force)
        qed
      qed
    qed
  qed
qed

section \<open>Auxiliary facts\<close>

text \<open>
  The first calls of a run are reads; lists searched with \<open>find\<close>; lower-casing; the upsert.
\<close>

lemma lookups_reads [simp]:
  "auditsOf (lookups d oid @ cs) = auditsOf cs"
  "mailsOf (lookups d oid @ cs) = mailsOf cs"
  "filter isWrite (lookups d oid @ cs) = filter isWrite cs"
  by (cases "cb_projectId d"; simp add: lookups_def)+

lemma lookups_reads_only [simp]:
  "auditsOf (lookups d oid) = []"
  "mailsOf (lookups d oid) = []"
  "filter isWrite (lookups d oid) = []"
  by (cases "cb_projectId d"; simp add: lookups_def)+

lemma find_snoc:
  "find P xs = None \<Longrightarrow> P x \<Longrightarrow> find P (xs @ [x]) = Some x"
  by (induction xs) (auto split: if_splits)

lemma find_ex: "(\<exists>y. find P xs = Some y) = (\<exists>x \<in> set xs. P x)"
  by (induction xs) auto

lemma projectOf_live: "(projectOf s oid pidopt \<noteq> None) = liveProjectInOrg s oid pidopt"
  by (cases pidopt) (auto simp add: projectOf_def liveProjectInOrg_def findProject_def find_ex)

lemma projectOf_id: "projectOf s oid pidopt = Some p \<Longrightarrow> pidopt = Some (project_id p)"
  by (cases pidopt)
     (auto simp add: projectOf_def findProject_def find_Some_iff split: if_splits)

lemma requestedProject_wanted:
  "(requestedProject s d oid \<noteq> None) = projectRoleWanted s d oid"
  using projectOf_live [of s oid "cb_projectId d"]
  by (cases "cb_projectRole d")
     (auto simp add: requestedProject_def projectRoleWanted_def split: option.splits)

lemma requestedProject_fields:
  "requestedProject s d oid = Some (p, r) \<Longrightarrow>
     cb_projectId d = Some (project_id p) \<and> cb_projectRole d = Some r"
  by (auto simp add: requestedProject_def dest: projectOf_id split: option.splits if_splits)





lemma upsert_absent:
  assumes "findOrgMembership s oid uid = None"
  shows "organizationMembership_upsert oid uid r s =
    (\<lparr>om_id = cuid (nextId s), om_userId = uid, om_orgId = oid, om_role = r\<rparr>,
     s\<lparr>organizationMemberships :=
         organizationMemberships s @
           [\<lparr>om_id = cuid (nextId s), om_userId = uid, om_orgId = oid, om_role = r\<rparr>],
       nextId := Suc (nextId s),
       calls := calls s @ [OrganizationMembershipUpsert oid uid r]\<rparr>)"
  using assms by (simp add: organizationMembership_upsert_def record_call_def Let_def)

lemma upsert_present:
  assumes "findOrgMembership s oid uid = Some m"
  shows "organizationMembership_upsert oid uid r s =
    (m\<lparr>om_role := r\<rparr>,
     s\<lparr>organizationMemberships :=
         map (\<lambda>x. if hasKey oid uid x then x\<lparr>om_role := r\<rparr> else x) (organizationMemberships s),
       calls := calls s @ [OrganizationMembershipUpsert oid uid r]\<rparr>)"
  using assms by (simp add: organizationMembership_upsert_def record_call_def)

lemma find_None_filter: "find P xs = None \<Longrightarrow> filter P xs = []"
  by (induction xs) (auto split: if_splits)

lemma find_Some_single:
  assumes "find P xs = Some m" and "length (filter P xs) \<le> 1"
  shows "\<exists>ys zs. xs = ys @ m # zs \<and> filter P ys = [] \<and> filter P zs = [] \<and> P m"
  using assms
proof (induction xs)
  case Nil
  then show ?case by simp
next
  case (Cons x xs)
  show ?case
  proof (cases "P x")
    case True
    with Cons.prems have "x = m" and "filter P xs = []" by simp_all
    with True have "x # xs = [] @ m # xs \<and> filter P [] = [] \<and> filter P xs = [] \<and> P m"
      by simp
    then show ?thesis by blast
  next
    case False
    with Cons obtain ys zs where "xs = ys @ m # zs" "filter P ys = []" "filter P zs = []" "P m"
      by auto
    with False have "x # xs = (x # ys) @ m # zs \<and> filter P (x # ys) = [] \<and>
        filter P zs = [] \<and> P m"
      by simp
    then show ?thesis by blast
  qed
qed

lemma find_filter_single: "filter P xs = [m] \<Longrightarrow> find P xs = Some m"
  by (induction xs) (auto split: if_splits)

lemma map_unmatched: "filter P xs = [] \<Longrightarrow> map (\<lambda>x. if P x then f x else x) xs = xs"
  by (induction xs) (auto split: if_splits)

lemma hasKey_role [simp]: "hasKey oid uid (m\<lparr>om_role := r\<rparr>) = hasKey oid uid m"
  by (simp add: hasKey_def)

lemma upsert_rows:
  assumes key: "length (filter (hasKey oid uid) (organizationMemberships s)) \<le> 1"
      and up: "organizationMembership_upsert oid uid r s = (m', s')"
  shows "filter (hasKey oid uid) (organizationMemberships s') = [m'] \<and> om_role m' = r \<and>
         om_userId m' = uid \<and> om_orgId m' = oid \<and>
         users s' = users s \<and>
         (findOrgMembership s oid uid = None \<longrightarrow>
            m' = \<lparr>om_id = cuid (nextId s), om_userId = uid, om_orgId = oid, om_role = r\<rparr> \<and>
            organizationMemberships s' = organizationMemberships s @ [m']) \<and>
         (\<forall>m. findOrgMembership s oid uid = Some m \<longrightarrow>
            m' = m\<lparr>om_role := r\<rparr> \<and>
            (\<exists>ys zs. organizationMemberships s = ys @ m # zs \<and>
                     organizationMemberships s' = ys @ m' # zs \<and>
                     filter (hasKey oid uid) ys = [] \<and> filter (hasKey oid uid) zs = []))"
proof (cases "findOrgMembership s oid uid")
  case None
  then have "filter (hasKey oid uid) (organizationMemberships s) = []"
    unfolding findOrgMembership_def by (rule find_None_filter)
  with upsert_absent [OF None, of r] up None show ?thesis
    by (auto simp add: hasKey_def)
next
  case (Some m)
  from find_Some_single [OF Some [unfolded findOrgMembership_def] key]
  obtain ys zs where split: "organizationMemberships s = ys @ m # zs"
    and ys: "filter (hasKey oid uid) ys = []" and zs: "filter (hasKey oid uid) zs = []"
    and m: "hasKey oid uid m"
    by blast
  from upsert_present [OF Some, of r] up
  have m': "m' = m\<lparr>om_role := r\<rparr>"
    and s': "s' = s\<lparr>organizationMemberships :=
         map (\<lambda>x. if hasKey oid uid x then x\<lparr>om_role := r\<rparr> else x) (organizationMemberships s),
       calls := calls s @ [OrganizationMembershipUpsert oid uid r]\<rparr>"
    by simp_all
  from s' split ys zs m m' have rows: "organizationMemberships s' = ys @ m' # zs"
    by (simp add: map_unmatched)
  with ys zs m m' have "filter (hasKey oid uid) (organizationMemberships s') = [m']"
    by simp
  moreover from m m' have "om_userId m' = uid \<and> om_orgId m' = oid \<and> om_role m' = r"
    by (simp add: hasKey_def)
  moreover from s' have "users s' = users s" by simp
  ultimately show ?thesis using Some m' split rows ys zs by auto
qed

lemma run_update:
  assumes "findUserById s (mb_userId d) = Some u"
      and "organizationMembership_upsert orgId (mb_userId d) (mb_role d)
             (record_call (UserFindUniqueById (mb_userId d)) s) = (m', s')"
  shows "handleUpdateMembership (ParseSuccess d) orgId s =
    (Response 200 (MembershipJson (om_userId m') (om_role m') (user_email u) (user_name u)), s')"
  using assms by (simp add: handleUpdateMembership_def user_findUnique_id_def)

section \<open>C1: creation for an existing user\<close>

text \<open>
  C1. For all valid input (the body parses, the organization exists, and the project id,
  when given and not empty, resolves to a live project of the organization, as steps 1
  and 2 of the algorithm require) where the lower-cased email of the request is the email
  of a user without a membership in the organization: the handler answers 200 with
  (userId, role, email, name) of that user and the requested role; exactly one row is
  added to the organization memberships, for that user, that organization and the
  requested role; exactly one audit record of type orgMembership is recorded, for that
  row; exactly one mail is sent, with \<^verbatim>\<open>userExists = true\<close>; no invitation is
  created; and when no live project with a project role other than NONE is supplied, no
  project membership is created and the membership's audit record is the only one.
\<close>

theorem create_for_existing_user:
  assumes usr: "findUserByEmail s (toLowerCase (cb_email d)) = Some u"
      and fresh: "findOrgMembership s orgId (user_id u) = None"
      and org: "findOrganization s orgId = Some g"
      and proj: "truthy (cb_projectId d) \<longrightarrow> projectOf s orgId (cb_projectId d) \<noteq> None"
      and run: "handleCreateMembership (ParseSuccess d) orgId s = (resp, s')"
  shows "resp = Response 200
                  (MembershipJson (user_id u) (cb_role d) (user_email u) (user_name u)) \<and>
         organizationMemberships s' =
           organizationMemberships s @
             [\<lparr>om_id = cuid (nextId s), om_userId = user_id u, om_orgId = orgId,
               om_role = cb_role d\<rparr>] \<and>
         filter (\<lambda>a. resourceType a = ''orgMembership'') (auditsOf (run_calls s s')) =
           [orgMembershipAudit d orgId (newOrgMembership s d orgId u)] \<and>
         mailsOf (run_calls s s') = [invitationMail s d orgId g True] \<and>
         userExists (invitationMail s d orgId g True) \<and>
         (requestedProject s d orgId = None \<longrightarrow>
            projectMemberships s' = projectMemberships s \<and>
            length (auditsOf (run_calls s s')) = 1) \<and>
         membershipInvitations s' = membershipInvitations s"
proof (cases "requestedProject s d orgId")
  case None
  from run_added_plain [OF usr org proj fresh None] run show ?thesis
    by (auto simp add: orgMembershipAudit_def newOrgMembership_def invitationMail_def)
next
  case (Some pr)
  obtain p r where "pr = (p, r)" by (cases pr)
  with Some have "requestedProject s d orgId = Some (p, r)" by simp
  from run_added_project [OF usr org fresh this] run Some show ?thesis
    by (auto simp add: orgMembershipAudit_def projectMembershipAudit_def newOrgMembership_def
          invitationMail_def)
qed

text \<open>
  The second example of the specification: existing@x.com, role ADMIN, project proj_1,
  project role MEMBER.
\<close>

theorem create_for_existing_user_witness:
  "findUserByEmail demo (toLowerCase (cb_email addExisting)) =
     Some \<lparr>user_id = ''u1'', user_email = ''existing@x.com'', user_name = Some ''Existing User''\<rparr> \<and>
   findOrgMembership demo ''org_1'' ''u1'' = None \<and>
   fst (handleCreateMembership (ParseSuccess addExisting) ''org_1'' demo) =
     Response 200 (MembershipJson ''u1'' ADMIN ''existing@x.com'' (Some ''Existing User'')) \<and>
   organizationMemberships (snd (handleCreateMembership (ParseSuccess addExisting) ''org_1'' demo)) =
     organizationMemberships demo @
       [\<lparr>om_id = cuid 0, om_userId = ''u1'', om_orgId = ''org_1'', om_role = ADMIN\<rparr>]"
proof -
  let ?u = "\<lparr>user_id = ''u1'', user_email = ''existing@x.com'', user_name = Some ''Existing User''\<rparr>"
  let ?g = "\<lparr>org_id = ''org_1'', org_name = ''Org One''\<rparr>"
  have usr: "findUserByEmail demo (toLowerCase (cb_email addExisting)) = Some ?u" by code_simp
  have fresh: "findOrgMembership demo ''org_1'' (user_id ?u) = None" by code_simp
  have org: "findOrganization demo ''org_1'' = Some ?g" by code_simp
  have proj: "truthy (cb_projectId addExisting) \<longrightarrow>
      projectOf demo ''org_1'' (cb_projectId addExisting) \<noteq> None" by code_simp
  obtain resp s' where run: "handleCreateMembership (ParseSuccess addExisting) ''org_1'' demo = (resp, s')"
    by fastforce
  have n: "nextId demo = 0" and r: "cb_role addExisting = ADMIN"
    by (simp_all add: demo_def addExisting_def)
  from create_for_existing_user [OF usr fresh org proj run] usr fresh run n r
  show ?thesis by simp
qed

section \<open>C2: invitation of a new user\<close>

text \<open>
  C2. For all valid input (the body parses, the organization exists, and the project id,
  when given and not empty, resolves to a live project of the organization) where the
  lower-cased email of the request is the email of no user and no invitation exists for
  the organization and the lower-cased email: the handler answers 200 with
  (invitationId, email, role, status = PENDING), the email being the one of the request;
  exactly one invitation is added, for the organization, the lower-cased email and the
  requested role; exactly one audit record is recorded, for that invitation; exactly one
  mail is sent, with \<^verbatim>\<open>userExists = false\<close>; and no membership is created.
\<close>

theorem invite_new_user:
  assumes nouser: "findUserByEmail s (toLowerCase (cb_email d)) = None"
      and noinv: "findInvitation s (toLowerCase (cb_email d)) orgId = None"
      and org: "findOrganization s orgId = Some g"
      and proj: "truthy (cb_projectId d) \<longrightarrow> projectOf s orgId (cb_projectId d) \<noteq> None"
      and run: "handleCreateMembership (ParseSuccess d) orgId s = (resp, s')"
  shows "resp = Response 200
                  (InvitationJson (cuid (nextId s)) (cb_email d) (cb_role d) ''PENDING'') \<and>
         membershipInvitations s' = membershipInvitations s @ [newInvitation s d orgId] \<and>
         inv_id (newInvitation s d orgId) = cuid (nextId s) \<and>
         inv_orgId (newInvitation s d orgId) = orgId \<and>
         inv_email (newInvitation s d orgId) = toLowerCase (cb_email d) \<and>
         inv_orgRole (newInvitation s d orgId) = cb_role d \<and>
         auditsOf (run_calls s s') = [invitationAudit d orgId (newInvitation s d orgId)] \<and>
         mailsOf (run_calls s s') = [invitationMail s d orgId g False] \<and>
         \<not> userExists (invitationMail s d orgId g False) \<and>
         organizationMemberships s' = organizationMemberships s \<and>
         projectMemberships s' = projectMemberships s"
  using run_invited [OF nouser org proj noinv] run
  by (auto simp add: newInvitation_def invitationMail_def)

text \<open>
  The first example of the specification, with a capital letter in the address.
\<close>

theorem invite_new_user_witness:
  "findUserByEmail demo (toLowerCase (cb_email inviteNew)) = None \<and>
   findInvitation demo (toLowerCase (cb_email inviteNew)) ''org_1'' = None \<and>
   fst (handleCreateMembership (ParseSuccess inviteNew) ''org_1'' demo) =
     Response 200 (InvitationJson ''c'' ''New@x.com'' MEMBER ''PENDING'') \<and>
   length (membershipInvitations
     (snd (handleCreateMembership (ParseSuccess inviteNew) ''org_1'' demo))) =
     Suc (length (membershipInvitations demo))"
proof -
  let ?g = "\<lparr>org_id = ''org_1'', org_name = ''Org One''\<rparr>"
  have nouser: "findUserByEmail demo (toLowerCase (cb_email inviteNew)) = None" by code_simp
  have noinv: "findInvitation demo (toLowerCase (cb_email inviteNew)) ''org_1'' = None"
    by code_simp
  have org: "findOrganization demo ''org_1'' = Some ?g" by code_simp
  have proj: "truthy (cb_projectId inviteNew) \<longrightarrow>
      projectOf demo ''org_1'' (cb_projectId inviteNew) \<noteq> None" by code_simp
  obtain resp s' where run: "handleCreateMembership (ParseSuccess inviteNew) ''org_1'' demo = (resp, s')"
    by fastforce
  have n: "cuid (nextId demo) = ''c''" by code_simp
  have r: "cb_role inviteNew = MEMBER" "cb_email inviteNew = ''New@x.com''"
    by (simp_all add: inviteNew_def)
  from invite_new_user [OF nouser noinv org proj run] nouser noinv run n r
  show ?thesis by simp
qed

section \<open>C3: conflict for a member\<close>

text \<open>
  C3. For all valid input (the organization exists, the project ids, when given and not
  empty, resolve to a live project of the organization) whose lower-cased email is the
  email of a user, and two calls in a row for that organization and email (the same
  request twice, or a second request that differs in the letter case of the email, in
  the role, in the project role or in the project): when the user is a member of the
  organization already, however the membership came about, the first call answers 409
  "User is already a member of this organization", changes nothing in the store (the
  state differs in the recorded calls only), makes no write, records no audit entry,
  sends no mail, and leaves the membership, with its role, as it was; when the user is
  not a member yet, the first call succeeds with 200 and creates the membership with the
  requested role. In both cases the second call answers 409, changes nothing in the
  store, makes no write, records no audit entry and sends no mail, and the membership,
  with its role, is the same before and after it.
\<close>

theorem repeat_for_member:
  assumes usr: "findUserByEmail s (toLowerCase (cb_email d)) = Some u"
      and org: "findOrganization s orgId = Some g"
      and proj: "truthy (cb_projectId d) \<longrightarrow> projectOf s orgId (cb_projectId d) \<noteq> None"
      and first: "handleCreateMembership (ParseSuccess d) orgId s = (resp1, s1)"
      and same: "toLowerCase (cb_email d') = toLowerCase (cb_email d)"
      and proj': "truthy (cb_projectId d') \<longrightarrow> projectOf s orgId (cb_projectId d') \<noteq> None"
      and second: "handleCreateMembership (ParseSuccess d') orgId s1 = (resp2, s2)"
  shows "(\<forall>m. findOrgMembership s orgId (user_id u) = Some m \<longrightarrow>
            resp1 = Response 409 (ErrorJson ''User is already a member of this organization'') \<and>
            s1 = s\<lparr>calls := calls s1\<rparr> \<and>
            filter isWrite (run_calls s s1) = [] \<and>
            auditsOf (run_calls s s1) = [] \<and>
            mailsOf (run_calls s s1) = [] \<and>
            findOrgMembership s1 orgId (user_id u) = Some m) \<and>
         (findOrgMembership s orgId (user_id u) = None \<longrightarrow>
            resp1 = Response 200
                      (MembershipJson (user_id u) (cb_role d) (user_email u) (user_name u)) \<and>
            findOrgMembership s1 orgId (user_id u) =
              Some \<lparr>om_id = cuid (nextId s), om_userId = user_id u, om_orgId = orgId,
                    om_role = cb_role d\<rparr>) \<and>
         resp2 = Response 409 (ErrorJson ''User is already a member of this organization'') \<and>
         s2 = s1\<lparr>calls := calls s2\<rparr> \<and>
         filter isWrite (run_calls s1 s2) = [] \<and>
         auditsOf (run_calls s1 s2) = [] \<and>
         mailsOf (run_calls s1 s2) = [] \<and>
         (\<exists>m. findOrgMembership s1 orgId (user_id u) = Some m \<and>
              findOrgMembership s2 orgId (user_id u) = Some m)"
proof -
  have after_first:
    "(\<forall>m. findOrgMembership s orgId (user_id u) = Some m \<longrightarrow>
        resp1 = Response 409 (ErrorJson ''User is already a member of this organization'') \<and>
        s1 = s\<lparr>calls := calls s1\<rparr> \<and>
        filter isWrite (run_calls s s1) = [] \<and>
        auditsOf (run_calls s s1) = [] \<and>
        mailsOf (run_calls s s1) = [] \<and>
        findOrgMembership s1 orgId (user_id u) = Some m) \<and>
     (findOrgMembership s orgId (user_id u) = None \<longrightarrow>
        resp1 = Response 200
                  (MembershipJson (user_id u) (cb_role d) (user_email u) (user_name u)) \<and>
        findOrgMembership s1 orgId (user_id u) =
          Some \<lparr>om_id = cuid (nextId s), om_userId = user_id u, om_orgId = orgId,
                om_role = cb_role d\<rparr>) \<and>
     (\<exists>m. findOrgMembership s1 orgId (user_id u) = Some m) \<and>
     users s1 = users s \<and> organizations s1 = organizations s \<and> projects s1 = projects s"
  proof (cases "findOrgMembership s orgId (user_id u)")
    case (Some m)
    from run_already_member [OF usr org proj Some] first
    have resp1: "resp1 = Response 409 (ErrorJson ''User is already a member of this organization'')"
      and s1: "s1 = s\<lparr>calls := calls s @ lookups d orgId @
            [OrganizationMembershipFindFirst orgId (user_id u)]\<rparr>"
      by simp_all
    from s1 have "s1 = s\<lparr>calls := calls s1\<rparr>" by simp
    moreover from s1 have "run_calls s s1 =
        lookups d orgId @ [OrganizationMembershipFindFirst orgId (user_id u)]"
      by simp
    moreover from s1 Some have "findOrgMembership s1 orgId (user_id u) = Some m"
      by (simp add: findOrgMembership_def)
    moreover from s1 have "users s1 = users s \<and> organizations s1 = organizations s \<and>
        projects s1 = projects s"
      by simp
    ultimately show ?thesis using resp1 Some by simp
  next
    case None
    have found: "find (hasKey orgId (user_id u))
            (organizationMemberships s @ [newOrgMembership s d orgId u]) =
          Some (newOrgMembership s d orgId u)"
      using None
      by (intro find_snoc) (simp_all add: findOrgMembership_def hasKey_def newOrgMembership_def)
    show ?thesis
    proof (cases "requestedProject s d orgId")
      case noproj: None
      from run_added_plain [OF usr org proj None noproj] first found None show ?thesis
        by (auto simp add: findOrgMembership_def newOrgMembership_def)
    next
      case (Some pr)
      obtain p r where "pr = (p, r)" by (cases pr)
      with Some have "requestedProject s d orgId = Some (p, r)" by simp
      from run_added_project [OF usr org None this] first found None show ?thesis
        by (auto simp add: findOrgMembership_def newOrgMembership_def)
    qed
  qed
  then obtain m where mem: "findOrgMembership s1 orgId (user_id u) = Some m"
    and same_tables: "users s1 = users s" "organizations s1 = organizations s"
      "projects s1 = projects s"
    by blast
  from usr same same_tables
  have usr1: "findUserByEmail s1 (toLowerCase (cb_email d')) = Some u"
    by (simp add: findUserByEmail_def)
  from org same_tables have org1: "findOrganization s1 orgId = Some g"
    by (simp add: findOrganization_def)
  from proj' same_tables
  have proj1: "truthy (cb_projectId d') \<longrightarrow> projectOf s1 orgId (cb_projectId d') \<noteq> None"
    by (cases "cb_projectId d'") (simp_all add: projectOf_def findProject_def)
  from run_already_member [OF usr1 org1 proj1 mem] second
  have resp2: "resp2 = Response 409 (ErrorJson ''User is already a member of this organization'')"
    and s2: "s2 = s1\<lparr>calls := calls s1 @ lookups d' orgId @
          [OrganizationMembershipFindFirst orgId (user_id u)]\<rparr>"
    by simp_all
  from s2 have "s2 = s1\<lparr>calls := calls s2\<rparr>" by simp
  moreover from s2 have "run_calls s1 s2 =
      lookups d' orgId @ [OrganizationMembershipFindFirst orgId (user_id u)]"
    by simp
  moreover from s2 mem have "findOrgMembership s2 orgId (user_id u) = Some m"
    by (simp add: findOrgMembership_def)
  ultimately show ?thesis using resp2 after_first mem by simp
qed

text \<open>
  The member u2 of the store, asked for with another role and a project: 409, and the role
  stays MEMBER. The user u1, not a member: 200, then 409 for a second call that asks for
  another role and writes the address in capital letters, and the role stays ADMIN.
\<close>

theorem repeat_for_member_witness:
  "findUserByEmail demo (toLowerCase (cb_email addMemberToProject)) =
     Some \<lparr>user_id = ''u2'', user_email = ''member@x.com'', user_name = None\<rparr> \<and>
   findOrgMembership demo ''org_1'' ''u2'' =
     Some \<lparr>om_id = ''m0'', om_userId = ''u2'', om_orgId = ''org_1'', om_role = MEMBER\<rparr> \<and>
   cb_role addMemberToProject = ADMIN \<and>
   fst (handleCreateMembership (ParseSuccess addMemberToProject) ''org_1'' demo) =
     Response 409 (ErrorJson ''User is already a member of this organization'') \<and>
   findOrgMembership (snd (handleCreateMembership (ParseSuccess addMemberToProject) ''org_1'' demo))
     ''org_1'' ''u2'' =
     Some \<lparr>om_id = ''m0'', om_userId = ''u2'', om_orgId = ''org_1'', om_role = MEMBER\<rparr> \<and>
   findOrgMembership demo ''org_1'' ''u1'' = None \<and>
   fst (handleCreateMembership (ParseSuccess addExisting) ''org_1'' demo) =
     Response 200 (MembershipJson ''u1'' ADMIN ''existing@x.com'' (Some ''Existing User'')) \<and>
   toLowerCase (cb_email addExistingAgain) = toLowerCase (cb_email addExisting) \<and>
   cb_role addExistingAgain = OWNER \<and>
   fst (handleCreateMembership (ParseSuccess addExistingAgain) ''org_1''
          (snd (handleCreateMembership (ParseSuccess addExisting) ''org_1'' demo))) =
     Response 409 (ErrorJson ''User is already a member of this organization'') \<and>
   findOrgMembership
     (snd (handleCreateMembership (ParseSuccess addExistingAgain) ''org_1''
            (snd (handleCreateMembership (ParseSuccess addExisting) ''org_1'' demo))))
     ''org_1'' ''u1'' =
     Some \<lparr>om_id = ''c'', om_userId = ''u1'', om_orgId = ''org_1'', om_role = ADMIN\<rparr>"
proof -
  let ?g = "\<lparr>org_id = ''org_1'', org_name = ''Org One''\<rparr>"
  let ?u1 = "\<lparr>user_id = ''u1'', user_email = ''existing@x.com'', user_name = Some ''Existing User''\<rparr>"
  let ?u2 = "\<lparr>user_id = ''u2'', user_email = ''member@x.com'', user_name = None\<rparr>"
  let ?m0 = "\<lparr>om_id = ''m0'', om_userId = ''u2'', om_orgId = ''org_1'', om_role = MEMBER\<rparr>"
  have org: "findOrganization demo ''org_1'' = Some ?g" by code_simp
  have usr2: "findUserByEmail demo (toLowerCase (cb_email addMemberToProject)) = Some ?u2"
    by code_simp
  have mem2: "findOrgMembership demo ''org_1'' (user_id ?u2) = Some ?m0" by code_simp
  have proj2: "truthy (cb_projectId addMemberToProject) \<longrightarrow>
      projectOf demo ''org_1'' (cb_projectId addMemberToProject) \<noteq> None" by code_simp
  obtain ra sa where firsta:
    "handleCreateMembership (ParseSuccess addMemberToProject) ''org_1'' demo = (ra, sa)"
    by fastforce
  obtain rb sb where seconda:
    "handleCreateMembership (ParseSuccess addMemberToProject) ''org_1'' sa = (rb, sb)"
    by fastforce
  have role2: "cb_role addMemberToProject = ADMIN" by (simp add: addMemberToProject_def)
  from repeat_for_member [OF usr2 org proj2 firsta refl proj2 seconda] mem2
  have a: "ra = Response 409 (ErrorJson ''User is already a member of this organization'')"
    "findOrgMembership sa ''org_1'' (user_id ?u2) = Some ?m0"
    by blast+
  have usr1: "findUserByEmail demo (toLowerCase (cb_email addExisting)) = Some ?u1"
    by code_simp
  have mem1: "findOrgMembership demo ''org_1'' (user_id ?u1) = None" by code_simp
  have proj1: "truthy (cb_projectId addExisting) \<longrightarrow>
      projectOf demo ''org_1'' (cb_projectId addExisting) \<noteq> None" by code_simp
  have proj1': "truthy (cb_projectId addExistingAgain) \<longrightarrow>
      projectOf demo ''org_1'' (cb_projectId addExistingAgain) \<noteq> None" by code_simp
  have same: "toLowerCase (cb_email addExistingAgain) = toLowerCase (cb_email addExisting)"
    by code_simp
  obtain r1 s1 where first:
    "handleCreateMembership (ParseSuccess addExisting) ''org_1'' demo = (r1, s1)"
    by fastforce
  obtain r2 s2 where second:
    "handleCreateMembership (ParseSuccess addExistingAgain) ''org_1'' s1 = (r2, s2)"
    by fastforce
  have f: "cb_role addExisting = ADMIN" "cb_role addExistingAgain = OWNER" "cuid (nextId demo) = ''c''"
    by (simp_all add: addExisting_def addExistingAgain_def demo_def cuid_def)
  from repeat_for_member [OF usr1 org proj1 first same proj1' second] mem1
  have b: "r1 = Response 200 (MembershipJson (user_id ?u1) (cb_role addExisting)
                 (user_email ?u1) (user_name ?u1))"
    "findOrgMembership s1 ''org_1'' (user_id ?u1) =
       Some \<lparr>om_id = cuid (nextId demo), om_userId = user_id ?u1, om_orgId = ''org_1'',
             om_role = cb_role addExisting\<rparr>"
    "r2 = Response 409 (ErrorJson ''User is already a member of this organization'')"
    "\<exists>m. findOrgMembership s1 ''org_1'' (user_id ?u1) = Some m \<and>
         findOrgMembership s2 ''org_1'' (user_id ?u1) = Some m"
    by blast+
  from a b usr2 mem2 mem1 same role2 f firsta first second show ?thesis by auto
qed

section \<open>C4: conflict for an invitation\<close>

text \<open>
  C4. For all valid input (the organization exists, the project ids, when given and not
  empty, resolve to a live project of the organization) whose lower-cased email is the
  email of no user, and two calls in a row for that organization and email (the same up
  to letter case; any roles): when no invitation exists for the organization and the
  lower-cased email, the first call answers 200 with status PENDING and adds one
  invitation, the one the lookup of the second call finds; when one exists already, the
  first call answers 409. In both cases the second call answers 409 "Invitation already
  exists for this email", changes nothing in the store, adds no invitation, makes no
  write, records no audit entry and sends no mail.
\<close>

theorem repeat_invitation:
  assumes nouser: "findUserByEmail s (toLowerCase (cb_email d)) = None"
      and org: "findOrganization s orgId = Some g"
      and proj: "truthy (cb_projectId d) \<longrightarrow> projectOf s orgId (cb_projectId d) \<noteq> None"
      and first: "handleCreateMembership (ParseSuccess d) orgId s = (resp1, s1)"
      and same: "toLowerCase (cb_email d') = toLowerCase (cb_email d)"
      and proj': "truthy (cb_projectId d') \<longrightarrow> projectOf s orgId (cb_projectId d') \<noteq> None"
      and second: "handleCreateMembership (ParseSuccess d') orgId s1 = (resp2, s2)"
  shows "(findInvitation s (toLowerCase (cb_email d)) orgId = None \<longrightarrow>
            resp1 = Response 200
                      (InvitationJson (cuid (nextId s)) (cb_email d) (cb_role d) ''PENDING'') \<and>
            findInvitation s1 (toLowerCase (cb_email d')) orgId = Some (newInvitation s d orgId) \<and>
            membershipInvitations s2 = membershipInvitations s @ [newInvitation s d orgId]) \<and>
         (findInvitation s (toLowerCase (cb_email d)) orgId \<noteq> None \<longrightarrow>
            resp1 = Response 409 (ErrorJson ''Invitation already exists for this email'') \<and>
            membershipInvitations s2 = membershipInvitations s) \<and>
         resp2 = Response 409 (ErrorJson ''Invitation already exists for this email'') \<and>
         s2 = s1\<lparr>calls := calls s2\<rparr> \<and>
         filter isWrite (run_calls s1 s2) = [] \<and>
         auditsOf (run_calls s1 s2) = [] \<and>
         mailsOf (run_calls s1 s2) = []"
proof -
  have after_first:
    "(findInvitation s (toLowerCase (cb_email d)) orgId = None \<longrightarrow>
        resp1 = Response 200
                  (InvitationJson (cuid (nextId s)) (cb_email d) (cb_role d) ''PENDING'') \<and>
        findInvitation s1 (toLowerCase (cb_email d')) orgId = Some (newInvitation s d orgId) \<and>
        membershipInvitations s1 = membershipInvitations s @ [newInvitation s d orgId]) \<and>
     (findInvitation s (toLowerCase (cb_email d)) orgId \<noteq> None \<longrightarrow>
        resp1 = Response 409 (ErrorJson ''Invitation already exists for this email'') \<and>
        membershipInvitations s1 = membershipInvitations s) \<and>
     (\<exists>i. findInvitation s1 (toLowerCase (cb_email d')) orgId = Some i) \<and>
     users s1 = users s \<and> organizations s1 = organizations s \<and> projects s1 = projects s"
  proof (cases "findInvitation s (toLowerCase (cb_email d)) orgId")
    case None
    have "find (\<lambda>i. inv_email i = toLowerCase (cb_email d) \<and> inv_orgId i = orgId)
            (membershipInvitations s @ [newInvitation s d orgId]) =
          Some (newInvitation s d orgId)"
      using None by (intro find_snoc) (simp_all add: findInvitation_def newInvitation_def)
    with run_invited [OF nouser org proj None] first None same show ?thesis
      by (auto simp add: findInvitation_def newInvitation_def)
  next
    case (Some i)
    with run_invitation_exists [OF nouser org proj Some] first same show ?thesis
      by (auto simp add: findInvitation_def)
  qed
  then obtain i where inv: "findInvitation s1 (toLowerCase (cb_email d')) orgId = Some i"
    and same_tables: "users s1 = users s" "organizations s1 = organizations s"
      "projects s1 = projects s"
    by blast
  from nouser same same_tables
  have nouser1: "findUserByEmail s1 (toLowerCase (cb_email d')) = None"
    by (simp add: findUserByEmail_def)
  from org same_tables have org1: "findOrganization s1 orgId = Some g"
    by (simp add: findOrganization_def)
  from proj' same_tables
  have proj1: "truthy (cb_projectId d') \<longrightarrow> projectOf s1 orgId (cb_projectId d') \<noteq> None"
    by (cases "cb_projectId d'") (simp_all add: projectOf_def findProject_def)
  from run_invitation_exists [OF nouser1 org1 proj1 inv] second
  have resp2: "resp2 = Response 409 (ErrorJson ''Invitation already exists for this email'')"
    and s2: "s2 = s1\<lparr>calls := calls s1 @ lookups d' orgId @
          [MembershipInvitationFindFirst (toLowerCase (cb_email d')) orgId]\<rparr>"
    by simp_all
  from s2 have "s2 = s1\<lparr>calls := calls s2\<rparr>" by simp
  moreover from s2 have "run_calls s1 s2 =
      lookups d' orgId @ [MembershipInvitationFindFirst (toLowerCase (cb_email d')) orgId]"
    by simp
  moreover from s2 have "membershipInvitations s2 = membershipInvitations s1" by simp
  ultimately show ?thesis using resp2 after_first by simp
qed

text \<open>
  The first example of the specification, called twice; the second call differs in letter
  case, role and project.
\<close>

theorem repeat_invitation_witness:
  "findUserByEmail demo (toLowerCase (cb_email inviteNew)) = None \<and>
   findInvitation demo (toLowerCase (cb_email inviteNew)) ''org_1'' = None \<and>
   toLowerCase (cb_email inviteNewAgain) = toLowerCase (cb_email inviteNew) \<and>
   fst (handleCreateMembership (ParseSuccess inviteNew) ''org_1'' demo) =
     Response 200 (InvitationJson ''c'' ''New@x.com'' MEMBER ''PENDING'') \<and>
   fst (handleCreateMembership (ParseSuccess inviteNewAgain) ''org_1''
          (snd (handleCreateMembership (ParseSuccess inviteNew) ''org_1'' demo))) =
     Response 409 (ErrorJson ''Invitation already exists for this email'')"
proof -
  let ?g = "\<lparr>org_id = ''org_1'', org_name = ''Org One''\<rparr>"
  have nouser: "findUserByEmail demo (toLowerCase (cb_email inviteNew)) = None" by code_simp
  have noinv: "findInvitation demo (toLowerCase (cb_email inviteNew)) ''org_1'' = None"
    by code_simp
  have org: "findOrganization demo ''org_1'' = Some ?g" by code_simp
  have proj: "truthy (cb_projectId inviteNew) \<longrightarrow>
      projectOf demo ''org_1'' (cb_projectId inviteNew) \<noteq> None" by code_simp
  have proj': "truthy (cb_projectId inviteNewAgain) \<longrightarrow>
      projectOf demo ''org_1'' (cb_projectId inviteNewAgain) \<noteq> None" by code_simp
  have same: "toLowerCase (cb_email inviteNewAgain) = toLowerCase (cb_email inviteNew)"
    by code_simp
  obtain resp1 s1 where first:
    "handleCreateMembership (ParseSuccess inviteNew) ''org_1'' demo = (resp1, s1)"
    by fastforce
  obtain resp2 s2 where second:
    "handleCreateMembership (ParseSuccess inviteNewAgain) ''org_1'' s1 = (resp2, s2)"
    by fastforce
  have n: "cuid (nextId demo) = ''c''" by code_simp
  have r: "cb_role inviteNew = MEMBER" "cb_email inviteNew = ''New@x.com''"
    by (simp_all add: inviteNew_def)
  from repeat_invitation [OF nouser org proj first same proj' second]
    nouser noinv same first second n r
  show ?thesis by simp
qed

section \<open>C5: when the project role is persisted\<close>

text \<open>
  C5, as stated, has a project membership created in the arm for an existing user exactly
  when a live project of the organization and a project role other than NONE are supplied.
  The request below supplies both, for a user who is a member of the organization
  already: the handler answers 409 and creates no project membership.
\<close>

theorem project_role_persisted_counterexample:
  "projectRoleWanted demo addMemberToProject ''org_1'' \<and>
   findUserByEmail demo (toLowerCase (cb_email addMemberToProject)) =
     Some \<lparr>user_id = ''u2'', user_email = ''member@x.com'', user_name = None\<rparr> \<and>
   fst (handleCreateMembership (ParseSuccess addMemberToProject) ''org_1'' demo) =
     Response 409 (ErrorJson ''User is already a member of this organization'') \<and>
   projectMemberships
     (snd (handleCreateMembership (ParseSuccess addMemberToProject) ''org_1'' demo)) = []"
  by code_simp

text \<open>
  C5, amended. For every request whose body parses: when the handler answers 200 with a
  membership, one project membership is created if the project id is given, not empty and
  the id of a live project of the organization and the project role is given and not NONE,
  and none otherwise; the row carries the user, the project, the project role and the id
  of the organization membership created in the same run. When the handler answers 200
  with an invitation, the invitation carries the project id and the project role of the
  request under the same condition, both are null otherwise, and no project membership is
  created. When the handler answers anything else (404, 409), no project membership and no
  invitation is created. In every run, without a live project or without a project role
  other than NONE, no project membership is created.
\<close>

theorem project_role_persisted:
  assumes run: "handleCreateMembership (ParseSuccess d) orgId s = (resp, s')"
  shows "(\<forall>uid r e n. resp = Response 200 (MembershipJson uid r e n) \<longrightarrow>
            (if projectRoleWanted s d orgId
             then \<exists>pm m. projectMemberships s' = projectMemberships s @ [pm] \<and>
                    organizationMemberships s' = organizationMemberships s @ [m] \<and>
                    pm_userId pm = uid \<and> Some (pm_projectId pm) = cb_projectId d \<and>
                    Some (pm_role pm) = cb_projectRole d \<and> pm_orgMembershipId pm = om_id m
             else projectMemberships s' = projectMemberships s)) \<and>
         (\<forall>iid e r st. resp = Response 200 (InvitationJson iid e r st) \<longrightarrow>
            projectMemberships s' = projectMemberships s \<and>
            (\<exists>i. membershipInvitations s' = membershipInvitations s @ [i] \<and> inv_id i = iid \<and>
                 (if projectRoleWanted s d orgId
                  then inv_projectId i = cb_projectId d \<and> inv_projectRole i = cb_projectRole d \<and>
                       inv_projectId i \<noteq> None \<and> inv_projectRole i \<noteq> None
                  else inv_projectId i = None \<and> inv_projectRole i = None))) \<and>
         (status resp \<noteq> 200 \<longrightarrow>
            projectMemberships s' = projectMemberships s \<and>
            membershipInvitations s' = membershipInvitations s) \<and>
         (\<not> projectRoleWanted s d orgId \<longrightarrow> projectMemberships s' = projectMemberships s)"
proof (cases rule: create_outcomes [where vb = "ParseSuccess d" and s = s and orgId = orgId])
  case invalid
  then show ?thesis by simp
next
  case (org_missing d0)
  with run show ?thesis by (auto simp add: run_org_missing)
next
  case (project_missing d0 g)
  with run show ?thesis by (auto simp add: run_project_missing)
next
  case (already_member d0 g u m)
  with run show ?thesis by (auto simp add: run_already_member)
next
  case (added_plain d0 g u)
  then have "\<not> projectRoleWanted s d orgId"
    using requestedProject_wanted [of s d orgId] by simp
  with added_plain run show ?thesis by (auto simp add: run_added_plain)
next
  case (added_project d0 g u p r)
  then have w: "projectRoleWanted s d orgId"
    and f: "cb_projectId d = Some (project_id p)" "cb_projectRole d = Some r"
    using requestedProject_wanted [of s d orgId] requestedProject_fields [of s d orgId p r]
    by simp_all
  with added_project run show ?thesis
    by (auto simp add: run_added_project newProjectMembership_def newOrgMembership_def)
next
  case (invitation_exists d0 g i)
  with run show ?thesis by (auto simp add: run_invitation_exists)
next
  case (invited d0 g)
  show ?thesis
  proof (cases "requestedProject s d orgId")
    case None
    then have "\<not> projectRoleWanted s d orgId"
      using requestedProject_wanted [of s d orgId] by simp
    with invited run None show ?thesis
      by (auto simp add: run_invited newInvitation_def)
  next
    case (Some pr)
    obtain p r where pr: "pr = (p, r)" by (cases pr)
    with Some have w: "projectRoleWanted s d orgId"
      and f: "cb_projectId d = Some (project_id p)" "cb_projectRole d = Some r"
      using requestedProject_wanted [of s d orgId] requestedProject_fields [of s d orgId p r]
      by simp_all
    with invited run Some pr show ?thesis
      by (auto simp add: run_invited newInvitation_def)
  qed
qed

text \<open>
  The second example of the specification: one project membership for proj_1, u1, MEMBER.
\<close>

theorem project_role_persisted_witness:
  "projectRoleWanted demo addExisting ''org_1'' \<and>
   fst (handleCreateMembership (ParseSuccess addExisting) ''org_1'' demo) =
     Response 200 (MembershipJson ''u1'' ADMIN ''existing@x.com'' (Some ''Existing User'')) \<and>
   (\<exists>pm m. projectMemberships
              (snd (handleCreateMembership (ParseSuccess addExisting) ''org_1'' demo)) =
              projectMemberships demo @ [pm] \<and>
            organizationMemberships
              (snd (handleCreateMembership (ParseSuccess addExisting) ''org_1'' demo)) =
              organizationMemberships demo @ [m] \<and>
            pm_userId pm = ''u1'' \<and> Some (pm_projectId pm) = cb_projectId addExisting \<and>
            Some (pm_role pm) = cb_projectRole addExisting \<and> pm_orgMembershipId pm = om_id m)"
proof -
  obtain s' where run: "handleCreateMembership (ParseSuccess addExisting) ''org_1'' demo =
      (Response 200 (MembershipJson ''u1'' ADMIN ''existing@x.com'' (Some ''Existing User'')), s')"
  proof -
    have "fst (handleCreateMembership (ParseSuccess addExisting) ''org_1'' demo) =
      Response 200 (MembershipJson ''u1'' ADMIN ''existing@x.com'' (Some ''Existing User''))"
      by code_simp
    then show ?thesis using that by (metis prod.collapse)
  qed
  have w: "projectRoleWanted demo addExisting ''org_1''" by code_simp
  from project_role_persisted [OF run] w run show ?thesis by simp
qed

section \<open>C6: audit records and mail, in order\<close>

text \<open>
  C6. In every run of \<^verbatim>\<open>handleCreateMembership\<close>, each write to the store is followed
  at once by the audit record that describes it, before any other write; the mail is sent
  after every write and every audit record of the run, and only after the write it
  announces (the membership for \<^verbatim>\<open>userExists = true\<close>, the invitation for
  \<^verbatim>\<open>userExists = false\<close>). A run that answers 200 sends one mail and has one audit
  record for each of its writes; a run that answers anything else writes, records and
  sends nothing.
\<close>

theorem audit_then_mail_order:
  assumes run: "handleCreateMembership vb orgId s = (resp, s')"
  shows "auditedWrites (run_calls s s') \<and>
         mailAfterWritesAndAudits (run_calls s s') \<and>
         mailsAfterTheirWrite [] (run_calls s s') \<and>
         (status resp = 200 \<longrightarrow>
            length (mailsOf (run_calls s s')) = 1 \<and>
            filter isWrite (run_calls s s') \<noteq> [] \<and>
            length (auditsOf (run_calls s s')) = length (filter isWrite (run_calls s s'))) \<and>
         (status resp \<noteq> 200 \<longrightarrow>
            mailsOf (run_calls s s') = [] \<and> filter isWrite (run_calls s s') = [] \<and>
            auditsOf (run_calls s s') = [])"
proof (cases rule: create_outcomes [where vb = vb and s = s and orgId = orgId])
  case invalid
  with run show ?thesis by (auto simp add: run_invalid run_calls_def)
next
  case (org_missing d)
  with run show ?thesis by (auto simp add: run_org_missing run_calls_def)
next
  case (project_missing d g)
  with run have "run_calls s s' = lookups d orgId" and "status resp = 404"
    by (auto simp add: run_project_missing)
  then show ?thesis by (cases "cb_projectId d") (simp_all add: lookups_def)
next
  case (already_member d g u m)
  with run have "run_calls s s' = lookups d orgId @ [OrganizationMembershipFindFirst orgId (user_id u)]"
    and "status resp = 409"
    by (auto simp add: run_already_member)
  then show ?thesis by (cases "cb_projectId d") (simp_all add: lookups_def)
next
  case (added_plain d g u)
  with run have "run_calls s s' = lookups d orgId @
         [OrganizationMembershipFindFirst orgId (user_id u),
          OrganizationMembershipCreate (newOrgMembership s d orgId u),
          AuditLog (orgMembershipAudit d orgId (newOrgMembership s d orgId u)),
          SendMembershipInvitationEmail (invitationMail s d orgId g True)]"
    and "status resp = 200"
    by (auto simp add: run_added_plain)
  then show ?thesis
    by (cases "cb_projectId d")
       (simp_all add: lookups_def orgMembershipAudit_def invitationMail_def newOrgMembership_def)
next
  case (added_project d g u p r)
  with run have "run_calls s s' = lookups d orgId @
         [OrganizationMembershipFindFirst orgId (user_id u),
          OrganizationMembershipCreate (newOrgMembership s d orgId u),
          AuditLog (orgMembershipAudit d orgId (newOrgMembership s d orgId u)),
          ProjectMembershipCreate (newProjectMembership s u p r),
          AuditLog (projectMembershipAudit d orgId u p (newProjectMembership s u p r)),
          SendMembershipInvitationEmail (invitationMail s d orgId g True)]"
    and "status resp = 200"
    by (auto simp add: run_added_project)
  then show ?thesis
    by (cases "cb_projectId d")
       (simp_all add: lookups_def orgMembershipAudit_def invitationMail_def newOrgMembership_def
          projectMembershipAudit_def)
next
  case (invitation_exists d g i)
  with run have "run_calls s s' = lookups d orgId @
          [MembershipInvitationFindFirst (toLowerCase (cb_email d)) orgId]"
    and "status resp = 409"
    by (auto simp add: run_invitation_exists)
  then show ?thesis by (cases "cb_projectId d") (simp_all add: lookups_def)
next
  case (invited d g)
  with run have "run_calls s s' = lookups d orgId @
         [MembershipInvitationFindFirst (toLowerCase (cb_email d)) orgId,
          MembershipInvitationCreate (newInvitation s d orgId),
          AuditLog (invitationAudit d orgId (newInvitation s d orgId)),
          SendMembershipInvitationEmail (invitationMail s d orgId g False)]"
    and "status resp = 200"
    by (auto simp add: run_invited)
  then show ?thesis
    by (cases "cb_projectId d")
       (simp_all add: lookups_def invitationAudit_def invitationMail_def newInvitation_def)
qed

text \<open>
  A run with two writes: the membership, its audit record, the project membership, its
  audit record, the mail.
\<close>

theorem audit_then_mail_order_witness:
  "let (resp, s') = handleCreateMembership (ParseSuccess addExisting) ''org_1'' demo
   in status resp = 200 \<and> length (auditsOf (run_calls demo s')) = 2 \<and>
      auditedWrites (run_calls demo s') \<and> mailAfterWritesAndAudits (run_calls demo s') \<and>
      mailsAfterTheirWrite [] (run_calls demo s') \<and> length (mailsOf (run_calls demo s')) = 1"
proof -
  obtain resp s' where run: "handleCreateMembership (ParseSuccess addExisting) ''org_1'' demo = (resp, s')"
    by fastforce
  have "status (fst (handleCreateMembership (ParseSuccess addExisting) ''org_1'' demo)) = 200"
    by code_simp
  moreover have "length (filter isWrite (run_calls demo
      (snd (handleCreateMembership (ParseSuccess addExisting) ''org_1'' demo)))) = 2"
    by code_simp
  ultimately show ?thesis
    using audit_then_mail_order [OF run] run by simp
qed

section \<open>C7: order of the lookups\<close>

text \<open>
  C7, as stated, has the organization lookup precede the user lookup. The run below, for
  an organization that does not exist, looks the user up first and the organization
  second.
\<close>

theorem lookup_order_counterexample:
  "run_calls demo (snd (handleCreateMembership (ParseSuccess inviteNew) ''org_9'' demo)) =
     [UserFindUniqueByEmail ''new@x.com'', OrganizationFindUnique ''org_9''] \<and>
   \<not> precedes isOrgLookup isUserLookup
       (run_calls demo (snd (handleCreateMembership (ParseSuccess inviteNew) ''org_9'' demo)))"
  by code_simp

text \<open>
  C7, amended. In every run of \<^verbatim>\<open>handleCreateMembership\<close> on a body that parses, the
  user lookup precedes the organization lookup: the first call looks the user up by the
  lower-cased email, the second looks the organization up, and no later call is a user or
  organization lookup. When the organization is absent the run stops there with 404
  "Organization not found". When it is present, the third call is the project lookup
  exactly when the project id is given and not empty, and no other call is a project
  lookup.
\<close>

theorem lookup_order:
  assumes run: "handleCreateMembership (ParseSuccess d) orgId s = (resp, s')"
  shows "precedes isUserLookup isOrgLookup (run_calls s s') \<and>
         (\<exists>rest. run_calls s s' =
           UserFindUniqueByEmail (toLowerCase (cb_email d)) # OrganizationFindUnique orgId # rest \<and>
           list_all (\<lambda>c. \<not> isUserLookup c \<and> \<not> isOrgLookup c) rest \<and>
           (findOrganization s orgId = None \<longrightarrow>
              rest = [] \<and> resp = Response 404 (ErrorJson ''Organization not found'')) \<and>
           (findOrganization s orgId \<noteq> None \<longrightarrow>
              (case cb_projectId d of
                 None \<Rightarrow> list_all (\<lambda>c. \<not> isProjectLookup c) rest
               | Some pid \<Rightarrow>
                   if pid = [] then list_all (\<lambda>c. \<not> isProjectLookup c) rest
                   else \<exists>rest'. rest = ProjectFindFirst pid orgId # rest' \<and>
                          list_all (\<lambda>c. \<not> isProjectLookup c) rest')))"
proof -
  have shape: "\<exists>rest. run_calls s s' =
           UserFindUniqueByEmail (toLowerCase (cb_email d)) # OrganizationFindUnique orgId # rest \<and>
           list_all (\<lambda>c. \<not> isUserLookup c \<and> \<not> isOrgLookup c) rest \<and>
           (findOrganization s orgId = None \<longrightarrow>
              rest = [] \<and> resp = Response 404 (ErrorJson ''Organization not found'')) \<and>
           (findOrganization s orgId \<noteq> None \<longrightarrow>
              (case cb_projectId d of
                 None \<Rightarrow> list_all (\<lambda>c. \<not> isProjectLookup c) rest
               | Some pid \<Rightarrow>
                   if pid = [] then list_all (\<lambda>c. \<not> isProjectLookup c) rest
                   else \<exists>rest'. rest = ProjectFindFirst pid orgId # rest' \<and>
                          list_all (\<lambda>c. \<not> isProjectLookup c) rest'))"
  proof (cases rule: create_outcomes [where vb = "ParseSuccess d" and s = s and orgId = orgId])
  case invalid
  then show ?thesis by simp
next
  case (org_missing d')
  with run show ?thesis by (auto simp add: run_org_missing run_calls_def)
next
  case (project_missing d' g)
  with run have "run_calls s s' = lookups d orgId" and "findOrganization s orgId = Some g"
    by (auto simp add: run_project_missing)
  then show ?thesis by (cases "cb_projectId d") (simp_all add: lookups_def)
next
  case (already_member d' g u m)
  with run have "run_calls s s' = lookups d orgId @ [OrganizationMembershipFindFirst orgId (user_id u)]"
    and "findOrganization s orgId = Some g"
    by (auto simp add: run_already_member)
  then show ?thesis by (cases "cb_projectId d") (simp_all add: lookups_def)
next
  case (added_plain d' g u)
  with run have "run_calls s s' = lookups d orgId @
         [OrganizationMembershipFindFirst orgId (user_id u),
          OrganizationMembershipCreate (newOrgMembership s d orgId u),
          AuditLog (orgMembershipAudit d orgId (newOrgMembership s d orgId u)),
          SendMembershipInvitationEmail (invitationMail s d orgId g True)]"
    and "findOrganization s orgId = Some g"
    by (auto simp add: run_added_plain)
  then show ?thesis by (cases "cb_projectId d") (simp_all add: lookups_def)
next
  case (added_project d' g u p r)
  with run have "run_calls s s' = lookups d orgId @
         [OrganizationMembershipFindFirst orgId (user_id u),
          OrganizationMembershipCreate (newOrgMembership s d orgId u),
          AuditLog (orgMembershipAudit d orgId (newOrgMembership s d orgId u)),
          ProjectMembershipCreate (newProjectMembership s u p r),
          AuditLog (projectMembershipAudit d orgId u p (newProjectMembership s u p r)),
          SendMembershipInvitationEmail (invitationMail s d orgId g True)]"
    and "findOrganization s orgId = Some g"
    by (auto simp add: run_added_project)
  then show ?thesis by (cases "cb_projectId d") (simp_all add: lookups_def)
next
  case (invitation_exists d' g i)
  with run have "run_calls s s' = lookups d orgId @
          [MembershipInvitationFindFirst (toLowerCase (cb_email d)) orgId]"
    and "findOrganization s orgId = Some g"
    by (auto simp add: run_invitation_exists)
  then show ?thesis by (cases "cb_projectId d") (simp_all add: lookups_def)
next
  case (invited d' g)
  with run have "run_calls s s' = lookups d orgId @
         [MembershipInvitationFindFirst (toLowerCase (cb_email d)) orgId,
          MembershipInvitationCreate (newInvitation s d orgId),
          AuditLog (invitationAudit d orgId (newInvitation s d orgId)),
          SendMembershipInvitationEmail (invitationMail s d orgId g False)]"
    and "findOrganization s orgId = Some g"
    by (auto simp add: run_invited)
  then show ?thesis by (cases "cb_projectId d") (simp_all add: lookups_def)
  qed
  then obtain rest where "run_calls s s' =
      UserFindUniqueByEmail (toLowerCase (cb_email d)) # OrganizationFindUnique orgId # rest"
    by blast
  then have "precedes isUserLookup isOrgLookup (run_calls s s')" by simp
  with shape show ?thesis by simp
qed

text \<open>
  A run with the three lookups.
\<close>

theorem lookup_order_witness:
  "let (resp, s') = handleCreateMembership (ParseSuccess addExisting) ''org_1'' demo
   in precedes isUserLookup isOrgLookup (run_calls demo s') \<and>
      (\<exists>rest. run_calls demo s' =
         UserFindUniqueByEmail ''existing@x.com'' # OrganizationFindUnique ''org_1'' #
         ProjectFindFirst ''proj_1'' ''org_1'' # rest)"
proof -
  obtain resp s' where run: "handleCreateMembership (ParseSuccess addExisting) ''org_1'' demo = (resp, s')"
    by fastforce
  have "findOrganization demo ''org_1'' \<noteq> None" by code_simp
  moreover have "toLowerCase (cb_email addExisting) = ''existing@x.com''" by code_simp
  ultimately show ?thesis
    using lookup_order [OF run] run by (auto simp add: addExisting_def)
qed

section \<open>C8: letter case of the email\<close>



section \<open>C9: the upsert\<close>

text \<open>
  C9. For every user that exists and every table with at most one membership row for the
  key (orgId, userId), as the unique key of the upsert has it:
  \<^verbatim>\<open>handleUpdateMembership\<close> answers 200 with (userId, role, email, name); when no row
  has the key, it appends exactly one row with the given role; when a row has the key, it
  overwrites the role of that row where it stands and leaves every other row and field as
  it was; after the call exactly one row has the key, with the given role; and after a
  second call, with the same or another role, still exactly one row has the key, its role
  is the role of the second call, and the table has as many rows as after the first.
\<close>

theorem upsert_membership:
  assumes usr: "findUserById s (mb_userId d) = Some u"
      and key: "length (filter (hasKey orgId (mb_userId d)) (organizationMemberships s)) \<le> 1"
      and first: "handleUpdateMembership (ParseSuccess d) orgId s = (resp1, s1)"
      and second: "handleUpdateMembership (ParseSuccess (d\<lparr>mb_role := r2\<rparr>)) orgId s1 = (resp2, s2)"
  shows "resp1 = Response 200
                   (MembershipJson (mb_userId d) (mb_role d) (user_email u) (user_name u)) \<and>
         resp2 = Response 200 (MembershipJson (mb_userId d) r2 (user_email u) (user_name u)) \<and>
         (findOrgMembership s orgId (mb_userId d) = None \<longrightarrow>
            organizationMemberships s1 =
              organizationMemberships s @
                [\<lparr>om_id = cuid (nextId s), om_userId = mb_userId d, om_orgId = orgId,
                  om_role = mb_role d\<rparr>]) \<and>
         (\<forall>m. findOrgMembership s orgId (mb_userId d) = Some m \<longrightarrow>
            (\<exists>ys zs. organizationMemberships s = ys @ m # zs \<and>
                     organizationMemberships s1 = ys @ m\<lparr>om_role := mb_role d\<rparr> # zs)) \<and>
         (\<exists>m1. filter (hasKey orgId (mb_userId d)) (organizationMemberships s1) = [m1] \<and>
               om_role m1 = mb_role d \<and>
               filter (hasKey orgId (mb_userId d)) (organizationMemberships s2) =
                 [m1\<lparr>om_role := r2\<rparr>] \<and>
               length (organizationMemberships s2) = length (organizationMemberships s1))"
proof -
  let ?uid = "mb_userId d"
  let ?sa = "record_call (UserFindUniqueById ?uid) s"
  obtain m1 t1 where up1: "organizationMembership_upsert orgId ?uid (mb_role d) ?sa = (m1, t1)"
    by fastforce
  from usr have usr_a: "findUserById s ?uid = Some u" .
  from run_update [OF usr up1] first
  have resp1: "resp1 = Response 200
                   (MembershipJson (om_userId m1) (om_role m1) (user_email u) (user_name u))"
    and s1: "s1 = t1" by simp_all
  have key_a: "length (filter (hasKey orgId ?uid) (organizationMemberships ?sa)) \<le> 1"
    using key by (simp add: record_call_def)
  have find_a: "findOrgMembership ?sa orgId ?uid = findOrgMembership s orgId ?uid"
    and rows_a: "organizationMemberships ?sa = organizationMemberships s"
    and next_a: "nextId ?sa = nextId s"
    and users_a: "users ?sa = users s"
    by (simp_all add: record_call_def findOrgMembership_def)
  note r1 = upsert_rows [OF key_a up1, unfolded find_a rows_a next_a users_a]
  from r1 s1 have one: "filter (hasKey orgId ?uid) (organizationMemberships s1) = [m1]"
    and m1: "om_role m1 = mb_role d" "om_userId m1 = ?uid" "om_orgId m1 = orgId"
    and users1: "users s1 = users s"
    by simp_all
  let ?d2 = "d\<lparr>mb_role := r2\<rparr>"
  let ?sb = "record_call (UserFindUniqueById ?uid) s1"
  obtain m2 t2 where up2: "organizationMembership_upsert orgId ?uid r2 ?sb = (m2, t2)"
    by fastforce
  from usr users1 have usr2: "findUserById s1 (mb_userId ?d2) = Some u"
    by (simp add: findUserById_def)
  from up2 have up2': "organizationMembership_upsert orgId (mb_userId ?d2) (mb_role ?d2)
      (record_call (UserFindUniqueById (mb_userId ?d2)) s1) = (m2, t2)"
    by simp
  from run_update [OF usr2 up2'] second
  have resp2: "resp2 = Response 200
                   (MembershipJson (om_userId m2) (om_role m2) (user_email u) (user_name u))"
    and s2: "s2 = t2" by simp_all
  have key_b: "length (filter (hasKey orgId ?uid) (organizationMemberships ?sb)) \<le> 1"
    using one by (simp add: record_call_def)
  have find_b: "findOrgMembership ?sb orgId ?uid = Some m1"
    using one by (simp add: record_call_def findOrgMembership_def find_filter_single)
  have rows_b: "organizationMemberships ?sb = organizationMemberships s1"
    by (simp add: record_call_def)
  note r2 = upsert_rows [OF key_b up2, unfolded find_b rows_b]
  from r2 s2 have m2: "m2 = m1\<lparr>om_role := r2\<rparr>"
    and two: "filter (hasKey orgId ?uid) (organizationMemberships s2) = [m2]"
    and len: "length (organizationMemberships s2) = length (organizationMemberships s1)"
    by auto
  from r1 s1 have absent: "findOrgMembership s orgId ?uid = None \<longrightarrow>
      organizationMemberships s1 = organizationMemberships s @
        [\<lparr>om_id = cuid (nextId s), om_userId = ?uid, om_orgId = orgId, om_role = mb_role d\<rparr>]"
    by auto
  from r1 s1 have present: "\<forall>m. findOrgMembership s orgId ?uid = Some m \<longrightarrow>
      (\<exists>ys zs. organizationMemberships s = ys @ m # zs \<and>
               organizationMemberships s1 = ys @ m\<lparr>om_role := mb_role d\<rparr> # zs)"
    by blast
  from resp1 resp2 m1 m2 one two len absent present show ?thesis by simp
qed

text \<open>
  The member u2 is made ADMIN, then OWNER: one row. The user u1, without a row, gets one.
\<close>

theorem upsert_membership_witness:
  "findUserById demo (mb_userId promoteMember) =
     Some \<lparr>user_id = ''u2'', user_email = ''member@x.com'', user_name = None\<rparr> \<and>
   length (filter (hasKey ''org_1'' (mb_userId promoteMember)) (organizationMemberships demo)) \<le> 1 \<and>
   fst (handleUpdateMembership (ParseSuccess promoteMember) ''org_1'' demo) =
     Response 200 (MembershipJson ''u2'' ADMIN ''member@x.com'' None) \<and>
   fst (handleUpdateMembership (ParseSuccess (promoteMember\<lparr>mb_role := OWNER\<rparr>)) ''org_1''
          (snd (handleUpdateMembership (ParseSuccess promoteMember) ''org_1'' demo))) =
     Response 200 (MembershipJson ''u2'' OWNER ''member@x.com'' None) \<and>
   organizationMemberships
     (snd (handleUpdateMembership (ParseSuccess (promoteMember\<lparr>mb_role := OWNER\<rparr>)) ''org_1''
            (snd (handleUpdateMembership (ParseSuccess promoteMember) ''org_1'' demo)))) =
     [\<lparr>om_id = ''m0'', om_userId = ''u2'', om_orgId = ''org_1'', om_role = OWNER\<rparr>] \<and>
   organizationMemberships
     (snd (handleUpdateMembership (ParseSuccess enrolExisting) ''org_1'' demo)) =
     [\<lparr>om_id = ''m0'', om_userId = ''u2'', om_orgId = ''org_1'', om_role = MEMBER\<rparr>,
      \<lparr>om_id = ''c'', om_userId = ''u1'', om_orgId = ''org_1'', om_role = VIEWER\<rparr>]"
proof -
  let ?u = "\<lparr>user_id = ''u2'', user_email = ''member@x.com'', user_name = None\<rparr>"
  have usr: "findUserById demo (mb_userId promoteMember) = Some ?u" by code_simp
  have key: "length (filter (hasKey ''org_1'' (mb_userId promoteMember))
      (organizationMemberships demo)) \<le> 1"
    by code_simp
  obtain resp1 s1 where first:
    "handleUpdateMembership (ParseSuccess promoteMember) ''org_1'' demo = (resp1, s1)"
    by fastforce
  obtain resp2 s2 where second:
    "handleUpdateMembership (ParseSuccess (promoteMember\<lparr>mb_role := OWNER\<rparr>)) ''org_1'' s1 =
       (resp2, s2)"
    by fastforce
  have rows: "organizationMemberships
     (snd (handleUpdateMembership (ParseSuccess (promoteMember\<lparr>mb_role := OWNER\<rparr>)) ''org_1''
            (snd (handleUpdateMembership (ParseSuccess promoteMember) ''org_1'' demo)))) =
     [\<lparr>om_id = ''m0'', om_userId = ''u2'', om_orgId = ''org_1'', om_role = OWNER\<rparr>]"
    by code_simp
  have enrol: "organizationMemberships
     (snd (handleUpdateMembership (ParseSuccess enrolExisting) ''org_1'' demo)) =
     [\<lparr>om_id = ''m0'', om_userId = ''u2'', om_orgId = ''org_1'', om_role = MEMBER\<rparr>,
      \<lparr>om_id = ''c'', om_userId = ''u1'', om_orgId = ''org_1'', om_role = VIEWER\<rparr>]"
    by code_simp
  have f: "mb_userId promoteMember = ''u2''" "mb_role promoteMember = ADMIN"
    by (simp_all add: promoteMember_def)
  from upsert_membership [OF usr key first second] usr key first second rows enrol f
  show ?thesis by simp
qed

section \<open>C10: actor and role of the audit records\<close>

text \<open>
  C10. Every audit record of a run of \<^verbatim>\<open>handleCreateMembership\<close> has the actor "API"
  and, as its \<^verbatim>\<open>orgRole\<close>, the organization role of the request. The audit record of
  a project membership has the resource type projectMembership and, as resource id, the
  project id, two hyphens and the user id; and every project membership a run creates has
  such a record.
\<close>

theorem audit_actor_and_role:
  assumes run: "handleCreateMembership (ParseSuccess d) orgId s = (resp, s')"
  shows "(\<forall>a \<in> set (auditsOf (run_calls s s')).
            audit_userId a = ''API'' \<and> orgRole a = cb_role d \<and>
            (\<forall>m. after a = ProjectMembershipRow m \<longrightarrow>
                  resourceType a = ''projectMembership'' \<and>
                  resourceId a = pm_projectId m @ ''--'' @ pm_userId m)) \<and>
         (\<forall>m. ProjectMembershipCreate m \<in> set (run_calls s s') \<longrightarrow>
              (\<exists>a \<in> set (auditsOf (run_calls s s')). after a = ProjectMembershipRow m))"
proof (cases rule: create_outcomes [where vb = "ParseSuccess d" and s = s and orgId = orgId])
  case invalid
  then show ?thesis by simp
next
  case (org_missing d')
  with run show ?thesis by (auto simp add: run_org_missing run_calls_def)
next
  case (project_missing d' g)
  with run have "run_calls s s' = lookups d orgId"
    by (auto simp add: run_project_missing)
  then show ?thesis by (cases "cb_projectId d") (simp_all add: lookups_def)
next
  case (already_member d' g u m)
  with run have "run_calls s s' = lookups d orgId @ [OrganizationMembershipFindFirst orgId (user_id u)]"
    by (auto simp add: run_already_member)
  then show ?thesis by (cases "cb_projectId d") (simp_all add: lookups_def)
next
  case (added_plain d' g u)
  with run have "run_calls s s' = lookups d orgId @
         [OrganizationMembershipFindFirst orgId (user_id u),
          OrganizationMembershipCreate (newOrgMembership s d orgId u),
          AuditLog (orgMembershipAudit d orgId (newOrgMembership s d orgId u)),
          SendMembershipInvitationEmail (invitationMail s d orgId g True)]"
    by (auto simp add: run_added_plain)
  then show ?thesis
    by (cases "cb_projectId d") (simp_all add: lookups_def orgMembershipAudit_def)
next
  case (added_project d' g u p r)
  with run have "run_calls s s' = lookups d orgId @
         [OrganizationMembershipFindFirst orgId (user_id u),
          OrganizationMembershipCreate (newOrgMembership s d orgId u),
          AuditLog (orgMembershipAudit d orgId (newOrgMembership s d orgId u)),
          ProjectMembershipCreate (newProjectMembership s u p r),
          AuditLog (projectMembershipAudit d orgId u p (newProjectMembership s u p r)),
          SendMembershipInvitationEmail (invitationMail s d orgId g True)]"
    by (auto simp add: run_added_project)
  then show ?thesis
    by (cases "cb_projectId d")
       (simp_all add: lookups_def orgMembershipAudit_def projectMembershipAudit_def
          newProjectMembership_def)
next
  case (invitation_exists d' g i)
  with run have "run_calls s s' = lookups d orgId @
          [MembershipInvitationFindFirst (toLowerCase (cb_email d)) orgId]"
    by (auto simp add: run_invitation_exists)
  then show ?thesis by (cases "cb_projectId d") (simp_all add: lookups_def)
next
  case (invited d' g)
  with run have "run_calls s s' = lookups d orgId @
         [MembershipInvitationFindFirst (toLowerCase (cb_email d)) orgId,
          MembershipInvitationCreate (newInvitation s d orgId),
          AuditLog (invitationAudit d orgId (newInvitation s d orgId)),
          SendMembershipInvitationEmail (invitationMail s d orgId g False)]"
    by (auto simp add: run_invited)
  then show ?thesis
    by (cases "cb_projectId d") (simp_all add: lookups_def invitationAudit_def)
qed

text \<open>
  The organization role is ADMIN and the project role MEMBER: both audit records carry
  ADMIN, and the second has the resource id proj_1--u1.
\<close>

theorem audit_actor_and_role_witness:
  "let (resp, s') = handleCreateMembership (ParseSuccess addExisting) ''org_1'' demo
   in map resourceId (auditsOf (run_calls demo s')) = [''c'', ''proj_1--u1''] \<and>
      map orgRole (auditsOf (run_calls demo s')) = [ADMIN, ADMIN] \<and>
      map pm_role (projectMemberships s') = [MEMBER] \<and>
      list_all (\<lambda>a. audit_userId a = ''API'' \<and> orgRole a = cb_role addExisting)
        (auditsOf (run_calls demo s'))"
proof -
  obtain resp s' where run: "handleCreateMembership (ParseSuccess addExisting) ''org_1'' demo = (resp, s')"
    by fastforce
  have "map resourceId (auditsOf (run_calls demo
          (snd (handleCreateMembership (ParseSuccess addExisting) ''org_1'' demo)))) =
        [''c'', ''proj_1--u1'']"
    by code_simp
  moreover have "map orgRole (auditsOf (run_calls demo
          (snd (handleCreateMembership (ParseSuccess addExisting) ''org_1'' demo)))) =
        [ADMIN, ADMIN]"
    by code_simp
  moreover have "map pm_role (projectMemberships
          (snd (handleCreateMembership (ParseSuccess addExisting) ''org_1'' demo))) = [MEMBER]"
    by code_simp
  ultimately show ?thesis
    using audit_actor_and_role [OF run] run by (simp add: list_all_iff)
qed

end
